theory Spec2Isabelle
  imports Complex_Main "HOL-Library.Word"
begin

section \<open>art-for-daggerheart: scripts/init.js\<close>

text \<open>
  The module is one JavaScript file. Its functions are embedded here one by one, under
  their own names: the path deriver \<open>buildPathsFromActorImg\<close>, the mode predicates, the
  mapping preloader, the pack support check, the settings registration and the handler
  of the \<open>applyCompendiumArt\<close> hook.

  Logging (\<open>debugLog\<close>, \<open>debugWarn\<close>, ...) writes to the console only and is left out.
\<close>

subsection \<open>JavaScript strings and values\<close>

text \<open>
  A JavaScript string is a sequence of 16-bit code units. The regular expression of the
  path deriver has no \<open>u\<close> flag, so it matches code unit by code unit, and
  \<open>encodeURIComponent\<close> reads surrogate pairs out of the code units.
\<close>

type_synonym jschar = "16 word"
type_synonym jsstring = "jschar list"

definition lit :: "string \<Rightarrow> jsstring" where
  "lit s = map (\<lambda>c. of_nat (of_char c)) s"

datatype js_error = URIError | TypeError | SyntaxError

text \<open>
  The values a property can hold, as far as the module tells them apart: \<open>undefined\<close>
  (also the value of an absent property), \<open>null\<close>, booleans, numbers, strings, and any
  other object. Numbers are only stored and compared here, never computed with; a number
  is represented by the rational its literal denotes.
\<close>

datatype jsval = Undefined | Null | Bool bool | Num rat | Str jsstring | Obj

definition nullish :: "jsval \<Rightarrow> bool" where
  "nullish v = (v = Undefined \<or> v = Null)"

subsection \<open>Token modes\<close>

definition TOKEN_MODE_WILDCARDS :: jsstring where
  "TOKEN_MODE_WILDCARDS = lit ''wildcards''"

definition TOKEN_MODE_WILDCARDS_RINGS :: jsstring where
  "TOKEN_MODE_WILDCARDS_RINGS = lit ''wildcardsRings''"

definition TOKEN_MODE_CIRCLE :: jsstring where
  "TOKEN_MODE_CIRCLE = lit ''circle''"

definition TOKEN_MODE_CIRCLE_RINGS :: jsstring where
  "TOKEN_MODE_CIRCLE_RINGS = lit ''circleRings''"

definition TOKEN_MODE_PORTRAIT_RINGS :: jsstring where
  "TOKEN_MODE_PORTRAIT_RINGS = lit ''portraitRings''"

definition isWildcardMode :: "jsstring \<Rightarrow> bool" where
  "isWildcardMode m = (m = TOKEN_MODE_WILDCARDS \<or> m = TOKEN_MODE_WILDCARDS_RINGS)"

definition hasRings :: "jsstring \<Rightarrow> bool" where
  "hasRings m =
     (m = TOKEN_MODE_WILDCARDS_RINGS \<or> m = TOKEN_MODE_CIRCLE_RINGS \<or> m = TOKEN_MODE_PORTRAIT_RINGS)"

subsection \<open>The regular expression of the path deriver\<close>

text \<open>
  \<^verbatim>\<open>/^(.*)\/portraits\/([^/]+)(\.[^.\/]+)$/\<close> is run by a backtracking matcher. Both
  anchors are present and there is no \<open>m\<close> flag, so the whole input is matched. A greedy
  quantifier tries the longest repetition first and gives characters back one at a time;
  \<open>splits_desc\<close> lists the ways of cutting the input in that order, and \<open>first_match\<close>
  takes the first cut for which the rest of the pattern matches.

  Without the \<open>s\<close> flag the dot matches every code unit except the four line
  terminators; a negated class such as \<^verbatim>\<open>[^/]\<close> has no such exception.
\<close>

definition SLASH :: jschar where
  "SLASH = 0x2F"

definition DOT :: jschar where
  "DOT = 0x2E"

definition line_terminator :: "jschar \<Rightarrow> bool" where
  "line_terminator c = (c = 0x0A \<or> c = 0x0D \<or> c = 0x2028 \<or> c = 0x2029)"

definition splits_desc :: "'a list \<Rightarrow> ('a list \<times> 'a list) list" where
  "splits_desc s = map (\<lambda>i. (take i s, drop i s)) (rev [0..<Suc (length s)])"

primrec first_match :: "('a \<Rightarrow> 'b option) \<Rightarrow> 'a list \<Rightarrow> 'b option" where
  "first_match f [] = None"
| "first_match f (x # xs) = (case f x of Some y \<Rightarrow> Some y | None \<Rightarrow> first_match f xs)"

fun strip_prefix :: "'a list \<Rightarrow> 'a list \<Rightarrow> 'a list option" where
  "strip_prefix [] ys = Some ys"
| "strip_prefix (x # xs) [] = None"
| "strip_prefix (x # xs) (y # ys) = (if x = y then strip_prefix xs ys else None)"

text \<open>The third group, \<^verbatim>\<open>(\.[^.\/]+)$\<close>: a dot, then one or more code units that are
  neither a dot nor a slash, up to the end of the input.\<close>

definition match_ext :: "jsstring \<Rightarrow> bool" where
  "match_ext e =
     (case e of
        [] \<Rightarrow> False
      | c # t \<Rightarrow> c = DOT \<and> t \<noteq> [] \<and> list_all (\<lambda>x. x \<noteq> DOT \<and> x \<noteq> SLASH) t)"

text \<open>The second and third group, \<^verbatim>\<open>([^/]+)(\.[^.\/]+)$\<close>.\<close>

definition match_name_ext :: "jsstring \<Rightarrow> (jsstring \<times> jsstring) option" where
  "match_name_ext r =
     first_match
       (\<lambda>(b, e). if b \<noteq> [] \<and> list_all (\<lambda>x. x \<noteq> SLASH) b \<and> match_ext e then Some (b, e) else None)
       (splits_desc r)"

text \<open>The whole expression; the result is the three groups, or \<open>None\<close> for \<open>null\<close>.\<close>

definition portrait_regex_exec :: "jsstring \<Rightarrow> (jsstring \<times> jsstring \<times> jsstring) option" where
  "portrait_regex_exec s =
     first_match
       (\<lambda>(rootDir, rest).
          if list_all (\<lambda>x. \<not> line_terminator x) rootDir
          then (case strip_prefix (lit ''/portraits/'') rest of
                  None \<Rightarrow> None
                | Some r \<Rightarrow> map_option (\<lambda>(b, e). (rootDir, b, e)) (match_name_ext r))
          else None)
       (splits_desc s)"

subsection \<open>encodeURIComponent\<close>

text \<open>
  The built-in of the language: the letters, the digits and \<^verbatim>\<open>- _ . ! ~ * ' ( )\<close> are
  kept; every other code point is written as the percent-escapes of its UTF-8 octets,
  with upper-case hexadecimal digits. A surrogate that is not part of a pair makes the
  built-in throw a URIError.
\<close>

definition unreserved :: "jschar \<Rightarrow> bool" where
  "unreserved c =
     ((0x41 \<le> c \<and> c \<le> 0x5A) \<or> (0x61 \<le> c \<and> c \<le> 0x7A) \<or> (0x30 \<le> c \<and> c \<le> 0x39)
      \<or> c \<in> set (lit ''-_.!~*'' @ [0x27] @ lit ''()''))"

definition high_surrogate :: "jschar \<Rightarrow> bool" where
  "high_surrogate c = (0xD800 \<le> c \<and> c \<le> 0xDBFF)"

definition low_surrogate :: "jschar \<Rightarrow> bool" where
  "low_surrogate c = (0xDC00 \<le> c \<and> c \<le> 0xDFFF)"

definition hex_digit :: "nat \<Rightarrow> jschar" where
  "hex_digit n = (if n < 10 then of_nat (0x30 + n) else of_nat (0x41 + (n - 10)))"

definition percent_octet :: "nat \<Rightarrow> jsstring" where
  "percent_octet b = [0x25, hex_digit (b div 16), hex_digit (b mod 16)]"

definition utf8_octets :: "nat \<Rightarrow> nat list" where
  "utf8_octets cp =
     (if cp < 0x80 then [cp]
      else if cp < 0x800 then [0xC0 + cp div 64, 0x80 + cp mod 64]
      else if cp < 0x10000 then
        [0xE0 + cp div 4096, 0x80 + (cp div 64) mod 64, 0x80 + cp mod 64]
      else
        [0xF0 + cp div 262144, 0x80 + (cp div 4096) mod 64,
         0x80 + (cp div 64) mod 64, 0x80 + cp mod 64])"

definition percent_encode :: "nat \<Rightarrow> jsstring" where
  "percent_encode cp = concat (map percent_octet (utf8_octets cp))"

definition pair_code_point :: "jschar \<Rightarrow> jschar \<Rightarrow> nat" where
  "pair_code_point h l = (unat h - 0xD800) * 0x400 + (unat l - 0xDC00) + 0x10000"

definition prepend :: "jsstring \<Rightarrow> js_error + jsstring \<Rightarrow> js_error + jsstring" where
  "prepend p r = (case r of Inl e \<Rightarrow> Inl e | Inr s \<Rightarrow> Inr (p @ s))"

fun encodeURIComponent :: "jsstring \<Rightarrow> js_error + jsstring" where
  "encodeURIComponent [] = Inr []"
| "encodeURIComponent [c] =
     (if unreserved c then Inr [c]
      else if low_surrogate c \<or> high_surrogate c then Inl URIError
      else Inr (percent_encode (unat c)))"
| "encodeURIComponent (c # d # cs) =
     (if unreserved c then prepend [c] (encodeURIComponent (d # cs))
      else if low_surrogate c then Inl URIError
      else if high_surrogate c then
        (if low_surrogate d
         then prepend (percent_encode (pair_code_point c d)) (encodeURIComponent cs)
         else Inl URIError)
      else prepend (percent_encode (unat c)) (encodeURIComponent (d # cs)))"

text \<open>The strings on which the built-in does not throw: every high surrogate is followed
  by a low one, and no low surrogate stands alone.\<close>

fun paired_surrogates :: "jsstring \<Rightarrow> bool" where
  "paired_surrogates [] = True"
| "paired_surrogates [c] = (\<not> low_surrogate c \<and> \<not> high_surrogate c)"
| "paired_surrogates (c # d # cs) =
     (if high_surrogate c then low_surrogate d \<and> paired_surrogates cs
      else \<not> low_surrogate c \<and> paired_surrogates (d # cs))"

subsection \<open>buildPathsFromActorImg\<close>

record paths =
  wildcardSrc :: jsstring
  circleSrc :: jsstring
  ext :: jsstring

text \<open>
  The result is \<open>Inl\<close> when the call throws, \<open>Inr None\<close> for the empty object \<^verbatim>\<open>{}\<close>
  (no path derived) and \<open>Inr (Some p)\<close> for the object with the three properties.
\<close>

definition buildPathsFromActorImg :: "jsstring \<Rightarrow> js_error + paths option" where
  "buildPathsFromActorImg actorImg =
     (case portrait_regex_exec actorImg of
        None \<Rightarrow> Inr None
      | Some (rootDir, baseName, extn) \<Rightarrow>
          (let tokensDir = rootDir @ lit ''/tokens'';
               circleDir = rootDir @ lit ''/circle''
           in case encodeURIComponent baseName of
                Inl e \<Rightarrow> Inl e
              | Inr encoded \<Rightarrow>
                  Inr (Some \<lparr> wildcardSrc = tokensDir @ lit ''/'' @ encoded @ lit ''*'' @ extn,
                              circleSrc = circleDir @ lit ''/'' @ baseName @ extn,
                              ext = extn \<rparr>)))"

subsection \<open>The module's cache and the pack support check\<close>

text \<open>The two module-level variables \<open>SUPPORTED_PACKS\<close> (a \<open>Set\<close>) and
  \<open>MAPPING_DATA_LOADED\<close>.\<close>

record module_state =
  SUPPORTED_PACKS :: "jsstring set"
  MAPPING_DATA_LOADED :: bool

text \<open>\<open>Set.prototype.has\<close>: the set holds strings only (the keys of parsed JSON
  objects), so a value that is not a string is never a member.\<close>

definition has :: "jsstring set \<Rightarrow> jsval \<Rightarrow> bool" where
  "has S v = (case v of Str s \<Rightarrow> s \<in> S | _ \<Rightarrow> False)"

definition isPackSupported :: "module_state \<Rightarrow> jsval \<Rightarrow> bool" where
  "isPackSupported st packId =
     (if \<not> MAPPING_DATA_LOADED st then False
      else has (SUPPORTED_PACKS st) packId)"

subsection \<open>preloadMappingData\<close>

text \<open>
  The module's entry in \<open>game.modules\<close>, as far as it is read:
  \<open>module?.flags?.compendiumArtMappings\<close>, an object from system keys to
  configurations with a \<open>mapping\<close> property. \<open>None\<close> stands for a nullish value.
\<close>

record mapping_config =
  mapping :: jsval

record module_flags =
  compendiumArtMappings :: "(jsstring \<times> mapping_config option) list option"

record module_data =
  flags :: "module_flags option"

text \<open>A parsed JSON value.\<close>

datatype json =
  JNull | JBool bool | JNum rat | JStr jsstring | JArr "json list" | JObj "(jsstring \<times> json) list"

text \<open>
  What \<open>fetch\<close> gives for a URL: \<open>None\<close> when the promise is rejected (the network
  failed), otherwise a response with its status and the result of \<open>response.json()\<close>,
  \<open>None\<close> when the body is not JSON.
\<close>

record response =
  status :: nat
  json_body :: "json option"

type_synonym network = "jsstring \<Rightarrow> response option"

definition ok :: "response \<Rightarrow> bool" where
  "ok r = (200 \<le> status r \<and> status r \<le> 299)"

function decimal :: "nat \<Rightarrow> jsstring" where
  "decimal n = (if n < 10 then [of_nat (0x30 + n)] else decimal (n div 10) @ [of_nat (0x30 + n mod 10)])"
  by pat_completeness auto
termination
  by (relation "measure id") auto

declare decimal.simps [simp del]

text \<open>\<open>Object.keys\<close>: the own enumerable property names. An array and a string have
  their indices, a number and a boolean have none, \<open>null\<close> makes it throw.\<close>

definition Object_keys :: "json \<Rightarrow> js_error + jsstring list" where
  "Object_keys v =
     (case v of
        JNull \<Rightarrow> Inl TypeError
      | JBool b \<Rightarrow> Inr []
      | JNum n \<Rightarrow> Inr []
      | JStr s \<Rightarrow> Inr (map decimal [0..<length s])
      | JArr xs \<Rightarrow> Inr (map decimal [0..<length xs])
      | JObj kvs \<Rightarrow> Inr (map fst kvs))"

text \<open>The body of the \<open>try\<close> block, for one mapping file.\<close>

definition load_mapping :: "network \<Rightarrow> jsstring \<Rightarrow> jsstring set \<Rightarrow> js_error + jsstring set" where
  "load_mapping net url S =
     (case net url of
        None \<Rightarrow> Inl TypeError
      | Some r \<Rightarrow>
          if ok r then
            (case json_body r of
               None \<Rightarrow> Inl SyntaxError
             | Some mappingData \<Rightarrow>
                 (case Object_keys mappingData of
                    Inl e \<Rightarrow> Inl e
                  | Inr packIds \<Rightarrow> Inr (fold insert packIds S)))
          else Inr S)"

text \<open>The \<open>catch\<close> clause logs the error and goes on with the set as it is: nothing
  is added to the set before the last statement that can throw.\<close>

definition try_catch :: "js_error + jsstring set \<Rightarrow> jsstring set \<Rightarrow> js_error + jsstring set" where
  "try_catch r S = (case r of Inl e \<Rightarrow> Inr S | Inr S' \<Rightarrow> Inr S')"

text \<open>The body of the loop: \<^verbatim>\<open>config?.mapping && typeof config.mapping === 'string'\<close>
  holds for a string that is not empty.\<close>

definition preload_entry ::
  "network \<Rightarrow> jsstring \<times> mapping_config option \<Rightarrow> jsstring set \<Rightarrow> js_error + jsstring set" where
  "preload_entry net entry S =
     (case snd entry of
        None \<Rightarrow> Inr S
      | Some config \<Rightarrow>
          (case mapping config of
             Str url \<Rightarrow> if url \<noteq> [] then try_catch (load_mapping net url S) S else Inr S
           | _ \<Rightarrow> Inr S))"

fun preload_entries ::
  "network \<Rightarrow> (jsstring \<times> mapping_config option) list \<Rightarrow> jsstring set \<Rightarrow> js_error + jsstring set" where
  "preload_entries net [] S = Inr S"
| "preload_entries net (entry # entries) S =
     (case preload_entry net entry S of
        Inl e \<Rightarrow> Inl e
      | Inr S' \<Rightarrow> preload_entries net entries S')"

definition mappings_of :: "module_data option \<Rightarrow> (jsstring \<times> mapping_config option) list" where
  "mappings_of modul =
     (case modul of
        None \<Rightarrow> []
      | Some m \<Rightarrow>
          (case flags m of
             None \<Rightarrow> []
           | Some f \<Rightarrow> (case compendiumArtMappings f of None \<Rightarrow> [] | Some entries \<Rightarrow> entries)))"

definition preloadMappingData ::
  "module_data option \<Rightarrow> network \<Rightarrow> module_state \<Rightarrow> js_error + module_state" where
  "preloadMappingData modul net st =
     (let compendiumMappings = mappings_of modul;
          st1 = st\<lparr>SUPPORTED_PACKS := {}\<rparr>
      in case preload_entries net compendiumMappings (SUPPORTED_PACKS st1) of
           Inl e \<Rightarrow> Inl e
         | Inr S \<Rightarrow> Inr (st1\<lparr>SUPPORTED_PACKS := S, MAPPING_DATA_LOADED := True\<rparr>))"

text \<open>
  The specification's reading of the result: the union of the top-level keys of every
  mapping file that was fetched and parsed.
\<close>

definition fetched_keys :: "network \<Rightarrow> jsstring \<times> mapping_config option \<Rightarrow> jsstring set" where
  "fetched_keys net entry =
     (case snd entry of
        None \<Rightarrow> {}
      | Some config \<Rightarrow>
          (case mapping config of
             Str url \<Rightarrow>
               (if url = [] then {}
                else case net url of
                       None \<Rightarrow> {}
                     | Some r \<Rightarrow>
                         if ok r then
                           (case json_body r of
                              None \<Rightarrow> {}
                            | Some mappingData \<Rightarrow>
                                (case Object_keys mappingData of Inl e \<Rightarrow> {} | Inr ks \<Rightarrow> set ks))
                         else {})
           | _ \<Rightarrow> {}))"

definition union_of_fetched_keys ::
  "network \<Rightarrow> (jsstring \<times> mapping_config option) list \<Rightarrow> jsstring set" where
  "union_of_fetched_keys net entries = (\<Union>entry \<in> set entries. fetched_keys net entry)"

subsection \<open>The document, the pack and the art descriptor\<close>

text \<open>
  The properties of the document source that the handler reads or writes: \<open>img\<close> and
  the prototype token with its texture and its ring. An absent property reads as
  \<open>Undefined\<close>. The three objects that the handler creates when they are missing
  (\<open>prototypeToken\<close>, \<open>texture\<close>, \<open>ring\<close>) are optional, \<open>None\<close> standing for a nullish
  value. The handler fills a ring only when the ring itself is nullish, so a ring that
  is present may still lack its \<open>colors\<close> or its \<open>subject\<close> object: the two are optional
  too.
\<close>

record texture_data =
  src :: jsval
  fit :: jsval

record ring_colors =
  colors_ring :: jsval
  colors_background :: jsval

record ring_subject =
  subject_scale :: jsval
  subject_texture :: jsval

record ring_data =
  enabled :: jsval
  effects :: jsval
  colors :: "ring_colors option"
  subject :: "ring_subject option"

record prototypeToken_data =
  texture :: "texture_data option"
  ring :: "ring_data option"
  randomImg :: jsval
  width :: jsval
  height :: jsval

record source_data =
  img :: jsval
  prototypeToken :: "prototypeToken_data option"

text \<open>The empty objects \<^verbatim>\<open>{}\<close> and \<^verbatim>\<open>{ colors: {}, subject: {} }\<close> of the three
  \<^verbatim>\<open>??=\<close> assignments.\<close>

definition empty_prototypeToken :: prototypeToken_data where
  "empty_prototypeToken =
     \<lparr> texture = None, ring = None, randomImg = Undefined, width = Undefined, height = Undefined \<rparr>"

definition empty_texture :: texture_data where
  "empty_texture = \<lparr> src = Undefined, fit = Undefined \<rparr>"

definition default_ring :: ring_data where
  "default_ring =
     \<lparr> enabled = Undefined, effects = Undefined,
       colors = Some \<lparr> colors_ring = Undefined, colors_background = Undefined \<rparr>,
       subject = Some \<lparr> subject_scale = Undefined, subject_texture = Undefined \<rparr> \<rparr>"

record pack_metadata =
  metadata_id :: jsval

record pack_data =
  metadata :: "pack_metadata option"
  collection :: jsval

record art_data =
  actor :: jsval

text \<open>\<^verbatim>\<open>pack?.metadata?.id ?? pack?.collection\<close>\<close>

definition pack_id :: "pack_data option \<Rightarrow> jsval" where
  "pack_id pack =
     (let metaId = (case pack of
                      None \<Rightarrow> Undefined
                    | Some p \<Rightarrow> (case metadata p of None \<Rightarrow> Undefined | Some m \<Rightarrow> metadata_id m))
      in if nullish metaId
         then (case pack of None \<Rightarrow> Undefined | Some p \<Rightarrow> collection p)
         else metaId)"

subsection \<open>Settings\<close>

text \<open>The values that the handler reads with \<open>game.settings.get\<close>.\<close>

record settings =
  tokenMode :: jsstring
  tokenWidth :: rat
  tokenHeight :: rat
  imageFitMode :: jsstring
  ringColor :: jsval

text \<open>
  The two host functions of the ring colour normalisation
  \<^verbatim>\<open>(foundry?.utils?.Color?.from?.(rawRing)?.css) ?? String(rawRing)\<close>: the value of the
  optional chain, and \<open>String\<close>.
\<close>

record host =
  Color_from_css :: "jsval \<Rightarrow> jsval"
  String_of :: "jsval \<Rightarrow> jsstring"

definition normalized_ring_color :: "host \<Rightarrow> jsval \<Rightarrow> jsval" where
  "normalized_ring_color h rawRing =
     (if nullish (Color_from_css h rawRing) then Str (String_of h rawRing)
      else Color_from_css h rawRing)"

text \<open>The options object of one \<open>game.settings.register\<close> call. A property that the
  call leaves out is \<open>None\<close>.\<close>

datatype setting_type = BooleanType | ColorFieldType | StringType | NumberType

record setting =
  name :: jsstring
  hint :: jsstring
  scope :: jsstring
  config :: bool
  type :: setting_type
  choices :: "(jsstring \<times> jsstring) list option"
  default_value :: jsval
  requiresReload :: "bool option"
  onChange :: bool

type_synonym registry = "((jsstring \<times> jsstring) \<times> setting) list"

definition MODULE_ID :: jsstring where
  "MODULE_ID = lit ''art-for-daggerheart''"

definition register :: "jsstring \<Rightarrow> jsstring \<Rightarrow> setting \<Rightarrow> registry \<Rightarrow> registry" where
  "register namespace key data reg = reg @ [((namespace, key), data)]"

definition registerSettings :: "registry \<Rightarrow> registry" where
  "registerSettings reg0 =
     (let reg1 = register MODULE_ID (lit ''tokenAutoRotate'')
            \<lparr> name = lit ''Token Auto Rotate'',
              hint = lit ''If enabled, core token auto-rotation will be turned on for this world.'',
              scope = lit ''world'', config = True, type = BooleanType, choices = None,
              default_value = Bool False, requiresReload = None, onChange = False \<rparr> reg0;
          reg2 = register MODULE_ID (lit ''debugLogging'')
            \<lparr> name = lit ''Debug Logging'',
              hint = lit ''If enabled, the module will print detailed diagnostics to the console.'',
              scope = lit ''world'', config = True, type = BooleanType, choices = None,
              default_value = Bool False, requiresReload = None, onChange = False \<rparr> reg1;
          reg3 = register MODULE_ID (lit ''ringColor'')
            \<lparr> name = lit ''Token Ring Color'',
              hint = lit ''Choose the color for token rings when ring modes are enabled.'',
              scope = lit ''world'', config = True, type = ColorFieldType, choices = None,
              default_value = Str (lit ''#8f0000''), requiresReload = Some True,
              onChange = True \<rparr> reg2;
          reg4 = register MODULE_ID (lit ''tokenMode'')
            \<lparr> name = lit ''Token Mode'',
              hint = lit ''Select token source and style.'',
              scope = lit ''world'', config = True, type = StringType,
              choices = Some [(TOKEN_MODE_WILDCARDS, lit ''Wildcards Only''),
                              (TOKEN_MODE_WILDCARDS_RINGS, lit ''Wildcards + Rings''),
                              (TOKEN_MODE_CIRCLE, lit ''Circle Only''),
                              (TOKEN_MODE_CIRCLE_RINGS, lit ''Circle + Rings''),
                              (TOKEN_MODE_PORTRAIT_RINGS, lit ''Portrait + Rings'')],
              default_value = Str TOKEN_MODE_WILDCARDS_RINGS, requiresReload = Some True,
              onChange = True \<rparr> reg3;
          reg5 = register MODULE_ID (lit ''tokenWidth'')
            \<lparr> name = lit ''Token Width'',
              hint = lit ''Set the width for tokens (1.0 = normal size).'',
              scope = lit ''world'', config = True, type = NumberType, choices = None,
              default_value = Num 1, requiresReload = Some True, onChange = True \<rparr> reg4;
          reg6 = register MODULE_ID (lit ''tokenHeight'')
            \<lparr> name = lit ''Token Height'',
              hint = lit ''Set the height for tokens (1.0 = normal size).'',
              scope = lit ''world'', config = True, type = NumberType, choices = None,
              default_value = Num 1, requiresReload = Some True, onChange = True \<rparr> reg5;
          reg7 = register MODULE_ID (lit ''imageFitMode'')
            \<lparr> name = lit ''Image Fit Mode'',
              hint = lit ''Choose how the token image should fit within the token frame.'',
              scope = lit ''world'', config = True, type = StringType,
              choices = Some [(lit ''fill'', lit ''Fill''), (lit ''contain'', lit ''Contain''),
                              (lit ''cover'', lit ''Cover''), (lit ''width'', lit ''Full Width''),
                              (lit ''height'', lit ''Full Height'')],
              default_value = Str (lit ''contain''), requiresReload = Some True,
              onChange = True \<rparr> reg6
      in reg7)"

subsection \<open>The handler of the applyCompendiumArt hook\<close>

text \<open>Truthiness, as \<^verbatim>\<open>&&\<close> and \<open>if\<close> test it.\<close>

definition truthy :: "jsval \<Rightarrow> bool" where
  "truthy v =
     (case v of
        Undefined \<Rightarrow> False
      | Null \<Rightarrow> False
      | Bool b \<Rightarrow> b
      | Num n \<Rightarrow> n \<noteq> 0
      | Str s \<Rightarrow> s \<noteq> []
      | Obj \<Rightarrow> True)"

text \<open>
  The handler mutates the document in place. The model passes the objects along: the
  document's \<open>img\<close>, the prototype token \<open>pt\<close>, its texture \<open>tx\<close> and its ring \<open>rg\<close>, which
  the three \<^verbatim>\<open>??=\<close> assignments have made exist, and \<open>attach\<close> puts them back into the
  document.
\<close>

definition attach ::
  "source_data \<Rightarrow> jsval \<Rightarrow> prototypeToken_data \<Rightarrow> texture_data \<Rightarrow> ring_data \<Rightarrow> source_data" where
  "attach source im pt tx rg =
     source\<lparr> img := im, prototypeToken := Some (pt\<lparr> texture := Some tx, ring := Some rg \<rparr>) \<rparr>"

text \<open>The value of \<^verbatim>\<open>art?.actor\<close>, and the test
  \<^verbatim>\<open>typeof art?.actor === "string" && art.actor\<close>: the portrait, when the descriptor
  has a string that is not empty.\<close>

definition art_actor :: "art_data option \<Rightarrow> jsval" where
  "art_actor art = (case art of None \<Rightarrow> Undefined | Some a \<Rightarrow> actor a)"

definition portrait_of :: "art_data option \<Rightarrow> jsstring option" where
  "portrait_of art =
     (case art_actor art of
        Str s \<Rightarrow> if truthy (Str s) then Some s else None
      | _ \<Rightarrow> None)"

text \<open>Step 1, the portrait: the writes to the prototype token and its texture, after
  \<open>source.img\<close> is set and the paths are derived.\<close>

definition apply_portrait ::
  "settings \<Rightarrow> jsstring \<Rightarrow> paths option \<Rightarrow> prototypeToken_data \<times> texture_data
   \<Rightarrow> prototypeToken_data \<times> texture_data" where
  "apply_portrait cfg actorImg derived objs =
     (case objs of (pt, tx) \<Rightarrow>
        (let mode = tokenMode cfg;
             wildcard = (case derived of None \<Rightarrow> Undefined | Some p \<Rightarrow> Str (wildcardSrc p));
             circle = (case derived of None \<Rightarrow> Undefined | Some p \<Rightarrow> Str (circleSrc p));
             chosen =
               (if mode = TOKEN_MODE_PORTRAIT_RINGS then (Str actorImg, False)
                else if isWildcardMode mode \<and> truthy wildcard then (wildcard, True)
                else if truthy circle then (circle, False)
                else (Str actorImg, False))
         in (pt\<lparr> randomImg := Bool (snd chosen),
                 width := Num (tokenWidth cfg),
                 height := Num (tokenHeight cfg) \<rparr>,
             tx\<lparr> src := fst chosen, fit := Str (imageFitMode cfg) \<rparr>)))"

text \<open>Step 2, the dynamic token ring: six assignments in the order of the source. The two
  to \<open>ring.colors\<close> throw a TypeError when the ring has no \<open>colors\<close> object, the two to
  \<open>ring.subject\<close> when it has no \<open>subject\<close> object; what was assigned before the throw
  stays. The second component of the result is the error thrown, if any.\<close>

definition apply_ring :: "jsstring \<Rightarrow> jsval \<Rightarrow> ring_data \<Rightarrow> ring_data \<times> js_error option" where
  "apply_ring mode ringCss rg =
     (let ringEnabled = hasRings mode;
          rg1 = rg\<lparr> enabled := Bool ringEnabled, effects := Num 1 \<rparr>
      in case colors rg1 of
           None \<Rightarrow> (rg1, Some TypeError)
         | Some c \<Rightarrow>
             (let rg2 = rg1\<lparr> colors := Some (c\<lparr> colors_ring := (if ringEnabled then ringCss else Null),
                                               colors_background := Null \<rparr>) \<rparr>
              in case subject rg2 of
                   None \<Rightarrow> (rg2, Some TypeError)
                 | Some sb \<Rightarrow>
                     (rg2\<lparr> subject := Some (sb\<lparr> subject_scale := Num (if ringEnabled then 8 / 10 else 1),
                                                 subject_texture := Null \<rparr>) \<rparr>,
                      None)))"

text \<open>The handler. The result is the document as the call leaves it, and the error thrown,
  if any: the path deriver is called after \<open>source.img\<close> is written and before any other
  write, the ring is written last, and nothing catches what either throws.\<close>

definition applyCompendiumArt ::
  "host \<Rightarrow> module_state \<Rightarrow> settings \<Rightarrow> source_data \<Rightarrow> pack_data option \<Rightarrow> art_data option
   \<Rightarrow> source_data \<times> js_error option" where
  "applyCompendiumArt h st cfg source pack art =
     (let packId = pack_id pack
      in if \<not> MAPPING_DATA_LOADED st then (source, None)
         else if \<not> isPackSupported st packId then (source, None)
         else
           (let mode = tokenMode cfg;
                ringCss = normalized_ring_color h (ringColor cfg);
                pt = (case prototypeToken source of None \<Rightarrow> empty_prototypeToken | Some p \<Rightarrow> p);
                tx = (case texture pt of None \<Rightarrow> empty_texture | Some t \<Rightarrow> t);
                rg = (case ring pt of None \<Rightarrow> default_ring | Some r \<Rightarrow> r)
            in case portrait_of art of
                 None \<Rightarrow>
                   (case apply_ring mode ringCss rg of
                      (rg', err) \<Rightarrow> (attach source (img source) pt tx rg', err))
               | Some actorImg \<Rightarrow>
                   (case buildPathsFromActorImg actorImg of
                      Inl e \<Rightarrow> (attach source (Str actorImg) pt tx rg, Some e)
                    | Inr derived \<Rightarrow>
                        (case apply_portrait cfg actorImg derived (pt, tx) of
                           (pt', tx') \<Rightarrow>
                             (case apply_ring mode ringCss rg of
                                (rg', err) \<Rightarrow>
                                  (attach source (Str actorImg) pt' tx' rg', err))))))"

text \<open>Reading a property through the document, with an absent object on the way giving
  \<open>Undefined\<close>.\<close>

definition at_token :: "(prototypeToken_data \<Rightarrow> jsval) \<Rightarrow> source_data \<Rightarrow> jsval" where
  "at_token f source = (case prototypeToken source of None \<Rightarrow> Undefined | Some pt \<Rightarrow> f pt)"

definition at_texture :: "(texture_data \<Rightarrow> jsval) \<Rightarrow> source_data \<Rightarrow> jsval" where
  "at_texture f source =
     at_token (\<lambda>pt. case texture pt of None \<Rightarrow> Undefined | Some tx \<Rightarrow> f tx) source"

definition at_ring :: "(ring_data \<Rightarrow> jsval) \<Rightarrow> source_data \<Rightarrow> jsval" where
  "at_ring f source =
     at_token (\<lambda>pt. case ring pt of None \<Rightarrow> Undefined | Some rg \<Rightarrow> f rg) source"

definition at_colors :: "(ring_colors \<Rightarrow> jsval) \<Rightarrow> source_data \<Rightarrow> jsval" where
  "at_colors f source =
     at_ring (\<lambda>rg. case colors rg of None \<Rightarrow> Undefined | Some c \<Rightarrow> f c) source"

definition at_subject :: "(ring_subject \<Rightarrow> jsval) \<Rightarrow> source_data \<Rightarrow> jsval" where
  "at_subject f source =
     at_ring (\<lambda>rg. case subject rg of None \<Rightarrow> Undefined | Some sb \<Rightarrow> f sb) source"

text \<open>The ring of the document is complete: it is absent, so that the handler builds it,
  or it has both its \<open>colors\<close> and its \<open>subject\<close> object.\<close>

definition ring_complete :: "source_data \<Rightarrow> bool" where
  "ring_complete source =
     (case prototypeToken source of
        None \<Rightarrow> True
      | Some pt \<Rightarrow>
          (case ring pt of
             None \<Rightarrow> True
           | Some rg \<Rightarrow> colors rg \<noteq> None \<and> subject rg \<noteq> None))"

text \<open>Whether the handler's call of the path deriver throws.\<close>

definition deriver_throws :: "art_data option \<Rightarrow> bool" where
  "deriver_throws art =
     (case portrait_of art of
        None \<Rightarrow> False
      | Some actorImg \<Rightarrow> (case buildPathsFromActorImg actorImg of Inl e \<Rightarrow> True | Inr r \<Rightarrow> False))"

text \<open>The six ring properties and the six portrait properties of a document, read
  together.\<close>

definition ring_fields :: "source_data \<Rightarrow> jsval \<times> jsval \<times> jsval \<times> jsval \<times> jsval \<times> jsval" where
  "ring_fields source =
     (at_ring enabled source,
      at_ring effects source,
      at_colors colors_ring source,
      at_colors colors_background source,
      at_subject subject_scale source,
      at_subject subject_texture source)"


text \<open>The ring properties that step 2 writes, in the same order.\<close>

definition written_ring_fields ::
  "host \<Rightarrow> settings \<Rightarrow> jsval \<times> jsval \<times> jsval \<times> jsval \<times> jsval \<times> jsval" where
  "written_ring_fields h cfg =
     (Bool (hasRings (tokenMode cfg)),
      Num 1,
      (if hasRings (tokenMode cfg) then normalized_ring_color h (ringColor cfg) else Null),
      Null,
      Num (if hasRings (tokenMode cfg) then 8 / 10 else 1),
      Null)"

subsection \<open>Outcomes of a fetch, in the words of the specification\<close>

text \<open>Fetching fails: the network fails, the response is not ok (a 404, say), or the
  body is not JSON. Fetching yields an object: the response is ok and its body parses to
  a JSON object with the given members.\<close>

definition fetch_fails :: "network \<Rightarrow> jsstring \<Rightarrow> bool" where
  "fetch_fails net url = (case net url of None \<Rightarrow> True | Some r \<Rightarrow> \<not> ok r \<or> json_body r = None)"

definition fetch_yields :: "network \<Rightarrow> jsstring \<Rightarrow> (jsstring \<times> json) list \<Rightarrow> bool" where
  "fetch_yields net url kvs =
     (case net url of None \<Rightarrow> False | Some r \<Rightarrow> ok r \<and> json_body r = Some (JObj kvs))"

subsection \<open>Concrete inputs\<close>

text \<open>\<open>String\<close> on a number, for the numbers that JavaScript writes in plain decimal
  notation with their own digits (magnitude below \<open>10^21\<close>, at most 17 significant digits,
  and a fraction that ends): the sign, the integer part, and the digits of the
  fraction.\<close>

primrec fraction_digits :: "nat \<Rightarrow> rat \<Rightarrow> jsstring" where
  "fraction_digits 0 f = []"
| "fraction_digits (Suc k) f =
     (if f = 0 then []
      else of_nat (0x30 + nat \<lfloor>f * 10\<rfloor>) # fraction_digits k (f * 10 - of_int \<lfloor>f * 10\<rfloor>))"

definition number_string :: "rat \<Rightarrow> jsstring" where
  "number_string n =
     (let a = \<bar>n\<bar>; f = a - of_int \<lfloor>a\<rfloor>
      in (if n < 0 then lit ''-'' else []) @ decimal (nat \<lfloor>a\<rfloor>)
         @ (if f = 0 then [] else lit ''.'' @ fraction_digits 17 f))"

text \<open>A host whose colour class is missing, so that the ring colour is \<open>String(rawRing)\<close>;
  a loaded cache with one pack; a pack of that collection; a document without a prototype
  token; the default settings with a given mode; a portrait path of the expected form; a
  network with one mapping file and one missing file.\<close>

definition example_host :: host where
  "example_host =
     \<lparr> Color_from_css = (\<lambda>v. Undefined),
       String_of = (\<lambda>v. case v of
                          Undefined \<Rightarrow> lit ''undefined''
                        | Null \<Rightarrow> lit ''null''
                        | Bool b \<Rightarrow> (if b then lit ''true'' else lit ''false'')
                        | Num n \<Rightarrow> number_string n
                        | Str s \<Rightarrow> s
                        | Obj \<Rightarrow> lit ''[object Object]'') \<rparr>"

definition example_state :: module_state where
  "example_state = \<lparr> SUPPORTED_PACKS = {lit ''packA''}, MAPPING_DATA_LOADED = True \<rparr>"

definition example_pack :: "pack_data option" where
  "example_pack = Some \<lparr> metadata = None, collection = Str (lit ''packA'') \<rparr>"

definition example_source :: source_data where
  "example_source = \<lparr> img = Str (lit ''icons/svg/mystery-man.svg''), prototypeToken = None \<rparr>"

definition example_settings :: "jsstring \<Rightarrow> settings" where
  "example_settings mode =
     \<lparr> tokenMode = mode, tokenWidth = 1, tokenHeight = 1, imageFitMode = lit ''contain'',
       ringColor = Str (lit ''#8f0000'') \<rparr>"

definition example_portrait :: jsstring where
  "example_portrait = lit ''assets/portraits/Cult Adept.webp''"

text \<open>Documents whose prototype token has a ring without its objects: the ring
  \<^verbatim>\<open>{}\<close>, and the ring \<^verbatim>\<open>{ colors: {} }\<close>.\<close>

definition empty_ring_source :: source_data where
  "empty_ring_source =
     \<lparr> img = Str (lit ''icons/svg/mystery-man.svg''),
       prototypeToken =
         Some \<lparr> texture = None,
                ring = Some \<lparr> enabled = Undefined, effects = Undefined, colors = None,
                              subject = None \<rparr>,
                randomImg = Undefined, width = Undefined, height = Undefined \<rparr> \<rparr>"

definition no_subject_source :: source_data where
  "no_subject_source =
     \<lparr> img = Str (lit ''icons/svg/mystery-man.svg''),
       prototypeToken =
         Some \<lparr> texture = None,
                ring = Some \<lparr> enabled = Undefined, effects = Undefined,
                              colors = Some \<lparr> colors_ring = Undefined, colors_background = Undefined \<rparr>,
                              subject = None \<rparr>,
                randomImg = Undefined, width = Undefined, height = Undefined \<rparr> \<rparr>"

text \<open>Paths that match the expression and yet are not handled: one with a line feed in
  its directory part, and three whose base name has a surrogate without its partner.\<close>

definition newline_root :: jsstring where
  "newline_root = lit ''a'' @ [0x0A] @ lit ''b''"

definition unpaired_high :: jsstring where
  "unpaired_high = lit ''a/portraits/'' @ [0xD83D] @ lit ''.png''"

definition unpaired_low :: jsstring where
  "unpaired_low = lit ''a/portraits/x'' @ [0xDC00] @ lit ''.webp''"

definition unpaired_pair :: jsstring where
  "unpaired_pair = lit ''a/portraits/'' @ [0xDE00, 0xD83D] @ lit ''.webp''"

definition example_module :: "module_data option" where
  "example_module =
     Some \<lparr> flags = Some \<lparr> compendiumArtMappings =
       Some [(lit ''dnd5e'', Some \<lparr> mapping = Str (lit ''missing.json'') \<rparr>),
             (lit ''daggerheart'', Some \<lparr> mapping = Str (lit ''mapping.json'') \<rparr>)] \<rparr> \<rparr>"

definition example_network :: network where
  "example_network url =
     (if url = lit ''missing.json'' then Some \<lparr> status = 404, json_body = None \<rparr>
      else if url = lit ''mapping.json'' then
        Some \<lparr> status = 200,
               json_body = Some (JObj [(lit ''packA'', JNum 1), (lit ''packB'', JNum 2)]) \<rparr>
      else None)"

section \<open>Properties\<close>

subsection \<open>Literals and modes\<close>

lemma lit_append: "lit (a @ b) = lit a @ lit b"
  by (simp add: lit_def)

lemma mode_distinct:
  "TOKEN_MODE_WILDCARDS \<noteq> TOKEN_MODE_WILDCARDS_RINGS"
  "TOKEN_MODE_WILDCARDS \<noteq> TOKEN_MODE_CIRCLE"
  "TOKEN_MODE_WILDCARDS \<noteq> TOKEN_MODE_CIRCLE_RINGS"
  "TOKEN_MODE_WILDCARDS \<noteq> TOKEN_MODE_PORTRAIT_RINGS"
  "TOKEN_MODE_WILDCARDS_RINGS \<noteq> TOKEN_MODE_CIRCLE"
  "TOKEN_MODE_WILDCARDS_RINGS \<noteq> TOKEN_MODE_CIRCLE_RINGS"
  "TOKEN_MODE_WILDCARDS_RINGS \<noteq> TOKEN_MODE_PORTRAIT_RINGS"
  "TOKEN_MODE_CIRCLE \<noteq> TOKEN_MODE_CIRCLE_RINGS"
  "TOKEN_MODE_CIRCLE \<noteq> TOKEN_MODE_PORTRAIT_RINGS"
  "TOKEN_MODE_CIRCLE_RINGS \<noteq> TOKEN_MODE_PORTRAIT_RINGS"
  by (simp_all add: TOKEN_MODE_WILDCARDS_def TOKEN_MODE_WILDCARDS_RINGS_def TOKEN_MODE_CIRCLE_def
      TOKEN_MODE_CIRCLE_RINGS_def TOKEN_MODE_PORTRAIT_RINGS_def lit_def)

subsection \<open>The regular expression\<close>

text \<open>The cuts of a list are all its ways of being an append; the first match is the only
  match when only one candidate matches.\<close>

lemma set_splits_desc: "set (splits_desc s) = {(a, b). a @ b = s}"
proof (intro set_eqI iffI)
  fix x assume "x \<in> set (splits_desc s)"
  then show "x \<in> {(a, b). a @ b = s}"
    by (auto simp: splits_desc_def)
next
  fix x assume "x \<in> {(a, b). a @ b = s}"
  then obtain a b where x: "x = (a, b)" "a @ b = s" by auto
  then have "x = (take (length a) s, drop (length a) s)" "length a \<in> {0..<Suc (length s)}"
    by auto
  then have "x \<in> (\<lambda>i. (take i s, drop i s)) ` {0..<Suc (length s)}"
    by (rule image_eqI)
  then show "x \<in> set (splits_desc s)"
    by (simp add: splits_desc_def del: upt_Suc)
qed

lemma first_match_None: "first_match f xs = None \<longleftrightarrow> (\<forall>x\<in>set xs. f x = None)"
  by (induction xs) (simp_all split: option.splits)

lemma first_match_Some_mem: "first_match f xs = Some y \<Longrightarrow> \<exists>x\<in>set xs. f x = Some y"
proof (induction xs)
  case Nil
  then show ?case by simp
next
  case (Cons a xs)
  then show ?case by (cases "f a") simp_all
qed

lemma first_match_unique:
  assumes "x \<in> set xs" "f x = Some y" "\<forall>x'\<in>set xs. f x' \<noteq> None \<longrightarrow> x' = x"
  shows "first_match f xs = Some y"
  using assms
proof (induction xs)
  case Nil
  then show ?case by simp
next
  case (Cons a xs)
  show ?case
  proof (cases "f a")
    case None
    with Cons.prems(1,2) have mem: "x \<in> set xs" by auto
    from Cons.prems(3) have "\<forall>x'\<in>set xs. f x' \<noteq> None \<longrightarrow> x' = x" by simp
    from Cons.IH [OF mem Cons.prems(2) this] None show ?thesis by simp
  next
    case (Some z)
    with Cons.prems(3) have "a = x" by simp
    with Cons.prems(2) show ?thesis by simp
  qed
qed

lemma strip_prefix_Some: "strip_prefix p s = Some r \<longleftrightarrow> s = p @ r"
  by (induction p s rule: strip_prefix.induct) auto

lemma last_sep_unique:
  "xs @ c # u = ys @ c # v \<Longrightarrow> c \<notin> set u \<Longrightarrow> c \<notin> set v \<Longrightarrow> xs = ys \<and> u = v"
proof (induction xs arbitrary: ys)
  case Nil
  then show ?case by (cases ys) auto
next
  case (Cons a xs)
  then show ?case by (cases ys) auto
qed

lemma match_ext_iff:
  "match_ext e \<longleftrightarrow> (\<exists>t. e = DOT # t \<and> t \<noteq> [] \<and> DOT \<notin> set t \<and> SLASH \<notin> set t)"
  by (cases e) (auto simp: match_ext_def list_all_iff)

lemma match_name_ext_form:
  assumes "N \<noteq> []" "SLASH \<notin> set N" "match_ext E"
  shows "match_name_ext (N @ E) = Some (N, E)"
proof -
  let ?f = "\<lambda>(b, e). if b \<noteq> [] \<and> list_all (\<lambda>x. x \<noteq> SLASH) b \<and> match_ext e
                      then Some (b, e) else None"
  from assms(3) obtain t where E: "E = DOT # t" "DOT \<notin> set t"
    by (auto simp: match_ext_iff)
  have mem: "(N, E) \<in> set (splits_desc (N @ E))"
    by (simp add: set_splits_desc)
  have val: "?f (N, E) = Some (N, E)"
    using assms by (simp add: list_all_iff)
  have uniq: "\<forall>x'\<in>set (splits_desc (N @ E)). ?f x' \<noteq> None \<longrightarrow> x' = (N, E)"
  proof (intro ballI impI)
    fix x' assume x': "x' \<in> set (splits_desc (N @ E))" "?f x' \<noteq> None"
    obtain b e where be: "x' = (b, e)" by (cases x')
    from x' be have split: "b @ e = N @ E" and me: "match_ext e"
      by (auto simp: set_splits_desc split: if_splits)
    from me obtain t' where e: "e = DOT # t'" "DOT \<notin> set t'"
      by (auto simp: match_ext_iff)
    from split E e have "b @ DOT # t' = N @ DOT # t" by simp
    from last_sep_unique [OF this e(2) E(2)] E e be show "x' = (N, E)" by simp
  qed
  show ?thesis
    unfolding match_name_ext_def by (rule first_match_unique [OF mem val uniq])
qed

lemma match_name_ext_Some:
  assumes "match_name_ext r = Some (b, e)"
  shows "r = b @ e \<and> b \<noteq> [] \<and> SLASH \<notin> set b \<and> match_ext e"
proof -
  from first_match_Some_mem [OF assms [unfolded match_name_ext_def]]
  show ?thesis
    by (auto simp: set_splits_desc list_all_iff split: if_splits)
qed

lemma SLASH_not_in_ext: "match_ext e \<Longrightarrow> SLASH \<notin> set e"
  by (auto simp: match_ext_iff SLASH_def DOT_def)

lemma portraits_lit: "lit ''/portraits/'' = lit ''/portraits'' @ [SLASH]"
  by (simp add: lit_def SLASH_def)

lemma portrait_regex_exec_Some:
  assumes "portrait_regex_exec s = Some (A, N, E)"
  shows "s = A @ lit ''/portraits/'' @ N @ E \<and> (\<forall>x\<in>set A. \<not> line_terminator x)
         \<and> N \<noteq> [] \<and> SLASH \<notin> set N \<and> match_ext E"
proof -
  from first_match_Some_mem [OF assms [unfolded portrait_regex_exec_def]]
  obtain rest r where "A @ rest = s" "\<forall>x\<in>set A. \<not> line_terminator x"
    "strip_prefix (lit ''/portraits/'') rest = Some r" "match_name_ext r = Some (N, E)"
    by (auto simp: set_splits_desc list_all_iff split: if_splits option.splits)
  then show ?thesis
    using match_name_ext_Some [of r N E] by (auto simp: strip_prefix_Some)
qed

lemma portrait_regex_exec_form:
  assumes "\<forall>x\<in>set A. \<not> line_terminator x" "N \<noteq> []" "SLASH \<notin> set N" "match_ext E"
  shows "portrait_regex_exec (A @ lit ''/portraits/'' @ N @ E) = Some (A, N, E)"
proof -
  let ?s = "A @ lit ''/portraits/'' @ N @ E"
  let ?f = "\<lambda>(rootDir, rest).
          if list_all (\<lambda>x. \<not> line_terminator x) rootDir
          then (case strip_prefix (lit ''/portraits/'') rest of
                  None \<Rightarrow> None
                | Some r \<Rightarrow> map_option (\<lambda>(b, e). (rootDir, b, e)) (match_name_ext r))
          else None"
  have mem: "(A, lit ''/portraits/'' @ N @ E) \<in> set (splits_desc ?s)"
    by (simp add: set_splits_desc)
  have sp: "strip_prefix (lit ''/portraits/'') (lit ''/portraits/'' @ N @ E) = Some (N @ E)"
    by (simp add: strip_prefix_Some)
  have val: "?f (A, lit ''/portraits/'' @ N @ E) = Some (A, N, E)"
    using assms by (simp add: list_all_iff sp match_name_ext_form)
  have noslash: "SLASH \<notin> set (N @ E)"
    using assms SLASH_not_in_ext by auto
  have uniq: "\<forall>x'\<in>set (splits_desc ?s). ?f x' \<noteq> None \<longrightarrow> x' = (A, lit ''/portraits/'' @ N @ E)"
  proof (intro ballI impI)
    fix x' assume x': "x' \<in> set (splits_desc ?s)" "?f x' \<noteq> None"
    obtain a rest where ar: "x' = (a, rest)" by (cases x')
    from x' ar obtain r b e where split: "a @ rest = ?s"
      and r: "strip_prefix (lit ''/portraits/'') rest = Some r"
      and m: "match_name_ext r = Some (b, e)"
      by (auto simp: set_splits_desc split: if_splits option.splits)
    from match_name_ext_Some [OF m] SLASH_not_in_ext [of e]
    have "SLASH \<notin> set r" by auto
    moreover from r split have "(a @ lit ''/portraits'') @ SLASH # r = (A @ lit ''/portraits'') @ SLASH # (N @ E)"
      by (simp add: strip_prefix_Some portraits_lit)
    ultimately have "a @ lit ''/portraits'' = A @ lit ''/portraits'' \<and> r = N @ E"
      using noslash by (intro last_sep_unique)
    with r ar show "x' = (A, lit ''/portraits/'' @ N @ E)"
      by (simp add: strip_prefix_Some)
  qed
  show ?thesis
    unfolding portrait_regex_exec_def by (rule first_match_unique [OF mem val uniq])
qed


text \<open>On a path written as directory, \<^verbatim>\<open>/portraits/\<close>, name and extension, the
  expression matches exactly when the directory has no line terminator and the name is
  not empty.\<close>

lemma portrait_regex_exec_char:
  assumes "SLASH \<notin> set N" "match_ext E"
  shows "portrait_regex_exec (A @ lit ''/portraits/'' @ N @ E)
           = (if (\<forall>x\<in>set A. \<not> line_terminator x) \<and> N \<noteq> [] then Some (A, N, E) else None)"
proof (cases "(\<forall>x\<in>set A. \<not> line_terminator x) \<and> N \<noteq> []")
  case True
  with assms show ?thesis by (simp add: portrait_regex_exec_form)
next
  case False
  have "portrait_regex_exec (A @ lit ''/portraits/'' @ N @ E) = None"
  proof (cases "portrait_regex_exec (A @ lit ''/portraits/'' @ N @ E)")
    case None
    then show ?thesis .
  next
    case (Some m)
    obtain A' N' E' where m: "m = (A', N', E')" by (cases m)
    from portrait_regex_exec_Some [OF Some [unfolded m]]
    have eq: "A @ lit ''/portraits/'' @ N @ E = A' @ lit ''/portraits/'' @ N' @ E'"
      and ok: "\<forall>x\<in>set A'. \<not> line_terminator x" "N' \<noteq> []" "SLASH \<notin> set N'" "match_ext E'"
      by simp_all
    from eq have eq': "(A @ lit ''/portraits'') @ SLASH # (N @ E) = (A' @ lit ''/portraits'') @ SLASH # (N' @ E')"
      by (simp add: portraits_lit)
    have ns: "SLASH \<notin> set (N @ E)" "SLASH \<notin> set (N' @ E')"
      using assms ok(3,4) SLASH_not_in_ext by simp_all
    from last_sep_unique [OF eq' ns] have 1: "A = A'" and 2: "N @ E = N' @ E'"
      by simp_all
    from assms(2) obtain t where t: "E = DOT # t" "DOT \<notin> set t"
      unfolding match_ext_iff by blast
    from ok(4) obtain t' where t': "E' = DOT # t'" "DOT \<notin> set t'"
      unfolding match_ext_iff by blast
    from 2 t(1) t'(1) have "N @ DOT # t = N' @ DOT # t'" by simp
    from last_sep_unique [OF this t(2) t'(2)] have "N = N'" by simp
    with 1 ok(1,2) False have False by simp
    then show ?thesis ..
  qed
  with False show ?thesis by simp
qed

text \<open>A path without the segment \<^verbatim>\<open>/portraits/\<close> is not matched.\<close>

lemma no_portraits_segment:
  assumes "\<And>a b. p \<noteq> a @ lit ''/portraits/'' @ b"
  shows "portrait_regex_exec p = None"
proof (cases "portrait_regex_exec p")
  case None
  then show ?thesis .
next
  case (Some m)
  obtain A N E where "m = (A, N, E)" by (cases m)
  with Some portrait_regex_exec_Some [of p A N E] assms [of A "N @ E"] show ?thesis by simp
qed

subsection \<open>encodeURIComponent\<close>

lemma unreserved_not_surrogate: "unreserved c \<Longrightarrow> \<not> low_surrogate c \<and> \<not> high_surrogate c"
  unfolding unreserved_def low_surrogate_def high_surrogate_def lit_def
  by (auto simp: word_le_nat_alt)

lemma high_not_low: "high_surrogate c \<Longrightarrow> \<not> low_surrogate c"
  unfolding low_surrogate_def high_surrogate_def
  by (auto simp: word_le_nat_alt)

lemma prepend_Inr: "(\<exists>r. prepend p x = Inr r) \<longleftrightarrow> (\<exists>r. x = Inr r)"
  by (cases x) (simp_all add: prepend_def)

text \<open>The built-in returns exactly on the strings whose surrogates are paired.\<close>

lemma encodeURIComponent_total:
  "(\<exists>enc. encodeURIComponent s = Inr enc) \<longleftrightarrow> paired_surrogates s"
proof (induction s rule: encodeURIComponent.induct)
  case 1
  then show ?case by simp
next
  case (2 c)
  then show ?case using unreserved_not_surrogate [of c] by auto
next
  case (3 c d cs)
  show ?case
  proof (cases "unreserved c")
    case True
    with 3 unreserved_not_surrogate [of c] show ?thesis by (simp add: prepend_Inr)
  next
    case False
    show ?thesis
    proof (cases "low_surrogate c")
      case True
      with False high_not_low [of c] show ?thesis by auto
    next
      case low: False
      show ?thesis
      proof (cases "high_surrogate c")
        case True
        with False low 3 show ?thesis by (simp add: prepend_Inr)
      next
        case high: False
        with False low 3 show ?thesis by (simp add: prepend_Inr)
      qed
    qed
  qed
qed

lemma encodeURIComponent_throws: "(\<exists>e. encodeURIComponent s = Inl e) \<longleftrightarrow> \<not> paired_surrogates s"
  using encodeURIComponent_total [of s] by (cases "encodeURIComponent s") auto

text \<open>The deriver throws exactly on a path that matches with a base name that has an
  unpaired surrogate.\<close>

lemma buildPathsFromActorImg_throws:
  "(\<exists>e. buildPathsFromActorImg p = Inl e)
     \<longleftrightarrow> (\<exists>A N E. portrait_regex_exec p = Some (A, N, E) \<and> \<not> paired_surrogates N)"
proof (cases "portrait_regex_exec p")
  case None
  then show ?thesis by (simp add: buildPathsFromActorImg_def)
next
  case (Some m)
  obtain A N E where m: "m = (A, N, E)" by (cases m)
  show ?thesis
    using encodeURIComponent_throws [of N]
    by (cases "encodeURIComponent N") (auto simp: buildPathsFromActorImg_def Some m)
qed

subsection \<open>The preloader\<close>

lemma fold_insert_set: "fold insert ks S = set ks \<union> S"
  by (induction ks arbitrary: S) auto

text \<open>One turn of the loop never throws and adds the keys of its file, if any.\<close>

lemma preload_entry_eq: "preload_entry net entry S = Inr (fetched_keys net entry \<union> S)"
  by (auto simp: preload_entry_def fetched_keys_def try_catch_def load_mapping_def fold_insert_set
      split: option.splits jsval.splits sum.splits)

lemma preload_entries_eq:
  "preload_entries net entries S = Inr (union_of_fetched_keys net entries \<union> S)"
proof (induction entries arbitrary: S)
  case Nil
  then show ?case by (simp add: union_of_fetched_keys_def)
next
  case (Cons entry entries)
  then show ?case
    by (simp add: preload_entry_eq union_of_fetched_keys_def Un_assoc Un_commute Un_left_commute)
qed

lemma fetched_keys_fails:
  "fetch_fails net url \<Longrightarrow> fetched_keys net (k, Some \<lparr> mapping = Str url \<rparr>) = {}"
  by (auto simp: fetch_fails_def fetched_keys_def split: option.splits)

lemma fetched_keys_yields:
  assumes "fetch_yields net url kvs" "url \<noteq> []"
  shows "fetched_keys net (k, Some \<lparr> mapping = Str url \<rparr>) = set (map fst kvs)"
proof -
  from assms(1) obtain r where "net url = Some r" "ok r" "json_body r = Some (JObj kvs)"
    by (cases "net url") (simp_all add: fetch_yields_def)
  with assms(2) show ?thesis
    by (simp add: fetched_keys_def Object_keys_def)
qed

subsection \<open>The handler behind its gate\<close>

lemma handler_gated:
  assumes "MAPPING_DATA_LOADED st" "has (SUPPORTED_PACKS st) (pack_id pack)"
  shows "applyCompendiumArt h st cfg source pack art =
     (let mode = tokenMode cfg;
          ringCss = normalized_ring_color h (ringColor cfg);
          pt = (case prototypeToken source of None \<Rightarrow> empty_prototypeToken | Some p \<Rightarrow> p);
          tx = (case texture pt of None \<Rightarrow> empty_texture | Some t \<Rightarrow> t);
          rg = (case ring pt of None \<Rightarrow> default_ring | Some r \<Rightarrow> r)
      in case portrait_of art of
           None \<Rightarrow>
             (case apply_ring mode ringCss rg of
                (rg', err) \<Rightarrow> (attach source (img source) pt tx rg', err))
         | Some actorImg \<Rightarrow>
             (case buildPathsFromActorImg actorImg of
                Inl e \<Rightarrow> (attach source (Str actorImg) pt tx rg, Some e)
              | Inr derived \<Rightarrow>
                  (case apply_portrait cfg actorImg derived (pt, tx) of
                     (pt', tx') \<Rightarrow>
                       (case apply_ring mode ringCss rg of
                          (rg', err) \<Rightarrow>
                            (attach source (Str actorImg) pt' tx' rg', err)))))"
  using assms by (simp add: applyCompendiumArt_def isPackSupported_def)

lemma portrait_of_Str: "s \<noteq> [] \<Longrightarrow> portrait_of (Some \<lparr> actor = Str s \<rparr>) = Some s"
  by (simp add: portrait_of_def art_actor_def truthy_def)

lemma matched_nonempty: "portrait_regex_exec p = Some m \<Longrightarrow> p \<noteq> []"
  by (cases m) (auto dest!: portrait_regex_exec_Some simp: lit_def)

text \<open>The ring that step 2 works on, after the \<^verbatim>\<open>??=\<close> assignments, has both its objects
  when the document's ring is complete.\<close>

lemma working_ring_complete:
  assumes "ring_complete source"
    and "pt = (case prototypeToken source of None \<Rightarrow> empty_prototypeToken | Some p \<Rightarrow> p)"
    and "rg = (case ring pt of None \<Rightarrow> default_ring | Some r \<Rightarrow> r)"
  shows "\<exists>c sb. colors rg = Some c \<and> subject rg = Some sb"
  using assms
  by (auto simp: ring_complete_def empty_prototypeToken_def default_ring_def split: option.splits)

text \<open>On a ring with both objects, step 2 does not throw and writes the six ring
  properties, whatever they held before.\<close>

lemma apply_ring_complete:
  assumes "colors rg = Some c" "subject rg = Some sb"
  shows "\<exists>rg'. apply_ring (tokenMode cfg) (normalized_ring_color h (ringColor cfg)) rg = (rg', None)
            \<and> ring_fields (attach source im pt tx rg') = written_ring_fields h cfg"
  using assms
  by (simp add: apply_ring_def Let_def ring_fields_def at_colors_def at_subject_def at_ring_def
      at_token_def attach_def written_ring_fields_def)

text \<open>On a ring without \<open>colors\<close>, or with \<open>colors\<close> and without \<open>subject\<close>, step 2 throws a
  TypeError.\<close>

lemma apply_ring_partial:
  assumes "colors rg = None \<or> subject rg = None"
  shows "snd (apply_ring mode ringCss rg) = Some TypeError"
  using assms by (auto simp: apply_ring_def Let_def split: option.splits)


text \<open>Past the gate, with a deriver that does not throw, a document whose ring lacks
  \<open>colors\<close> or \<open>subject\<close> makes the handler throw a TypeError.\<close>

lemma partial_ring_throws:
  assumes "MAPPING_DATA_LOADED st" "has (SUPPORTED_PACKS st) (pack_id pack)"
    and "\<not> deriver_throws art"
    and "\<not> ring_complete source"
  shows "snd (applyCompendiumArt h st cfg source pack art) = Some TypeError"
proof -
  define pt where "pt = (case prototypeToken source of None \<Rightarrow> empty_prototypeToken | Some p \<Rightarrow> p)"
  define rg where "rg = (case ring pt of None \<Rightarrow> default_ring | Some r \<Rightarrow> r)"
  from assms(4) have "colors rg = None \<or> subject rg = None"
    by (auto simp: ring_complete_def pt_def rg_def split: option.splits)
  then have "snd (apply_ring (tokenMode cfg) (normalized_ring_color h (ringColor cfg)) rg) = Some TypeError"
    by (rule apply_ring_partial)
  then obtain rg' where t:
    "apply_ring (tokenMode cfg) (normalized_ring_color h (ringColor cfg)) rg = (rg', Some TypeError)"
    by (cases "apply_ring (tokenMode cfg) (normalized_ring_color h (ringColor cfg)) rg") simp
  show ?thesis
  proof (cases "portrait_of art")
    case None
    with t show ?thesis
      by (simp add: handler_gated [OF assms(1,2)] Let_def pt_def [symmetric] rg_def [symmetric])
  next
    case (Some actorImg)
    with assms(3) obtain derived where "buildPathsFromActorImg actorImg = Inr derived"
      by (cases "buildPathsFromActorImg actorImg") (simp_all add: deriver_throws_def)
    with Some t show ?thesis
      by (simp add: handler_gated [OF assms(1,2)] Let_def pt_def [symmetric] rg_def [symmetric]
          split: prod.splits)
  qed
qed

section \<open>The claims\<close>

subsection \<open>Facts about the concrete inputs\<close>

lemma example_gate:
  "MAPPING_DATA_LOADED example_state" "has (SUPPORTED_PACKS example_state) (pack_id example_pack)"
  by (simp_all add: example_state_def example_pack_def has_def pack_id_def nullish_def)

lemma example_portrait_match:
  "portrait_regex_exec example_portrait
     = Some (lit ''assets'', lit ''Cult Adept'', lit ''.webp'')"
  by code_simp

lemma example_name_encoded: "encodeURIComponent (lit ''Cult Adept'') = Inr (lit ''Cult%20Adept'')"
  by code_simp

lemma matched_portrait_of:
  "portrait_regex_exec p = Some m \<Longrightarrow> portrait_of (Some \<lparr> actor = Str p \<rparr>) = Some p"
  by (simp add: portrait_of_Str matched_nonempty)

lemma art_actor_cases [simp]:
  "art_actor None = Undefined" "art_actor (Some a) = actor a"
  by (simp_all add: art_actor_def)

subsection \<open>The path deriver\<close>

text \<open>
  Claim C1, as stated: for every path \<open>A/portraits/Name.ext\<close>, where \<open>Name\<close> has no slash
  and \<open>ext\<close> is a final dot-segment with no further dot or slash, the deriver returns
  \<open>wildcardSrc = A/tokens/<percent-encoded Name>*.ext\<close> and \<open>circleSrc = A/circle/Name.ext\<close>.
  It fails where the directory part \<open>A\<close> holds a line feed: the dot of the expression's
  first group does not match a line terminator, the expression does not match, and the
  deriver returns the empty object.
\<close>

theorem deriver_line_terminator_counterexample:
  "lit ''x'' \<noteq> [] \<and> SLASH \<notin> set (lit ''x'') \<and> match_ext (lit ''.png'')
   \<and> encodeURIComponent (lit ''x'') = Inr (lit ''x'')
   \<and> buildPathsFromActorImg (newline_root @ lit ''/portraits/'' @ lit ''x'' @ lit ''.png'') = Inr None"
  by code_simp

text \<open>The other inputs of that form on which the deriver derives nothing or throws: an
  empty name, an empty extension, a name with an unpaired surrogate.\<close>

lemma deriver_empty_name: "buildPathsFromActorImg (lit ''a/portraits/.png'') = Inr None"
  by code_simp

lemma deriver_empty_extension: "buildPathsFromActorImg (lit ''a/portraits/x.'') = Inr None"
  by code_simp

lemma deriver_unpaired_surrogate:
  "buildPathsFromActorImg (lit ''a/portraits/'' @ [0xD83D] @ lit ''.png'') = Inl URIError"
  by code_simp

text \<open>
  Claim C1, amended: for every path \<open>A/portraits/Name.ext\<close> in which \<open>A\<close> has no line
  terminator, \<open>Name\<close> is not empty, has no slash and no unpaired surrogate, and \<open>ext\<close> is a
  dot followed by one or more code units that are neither a dot nor a slash, the deriver
  returns \<open>wildcardSrc = A/tokens/<percent-encoded Name>*.ext\<close> and
  \<open>circleSrc = A/circle/Name.ext\<close>, the circle file name left unencoded.
\<close>

theorem deriver_on_portrait_path:
  assumes "\<forall>c\<in>set A. \<not> line_terminator c"
    and "Name \<noteq> []" "SLASH \<notin> set Name" "paired_surrogates Name"
    and "e \<noteq> []" "DOT \<notin> set e" "SLASH \<notin> set e"
  shows "\<exists>enc. encodeURIComponent Name = Inr enc
           \<and> buildPathsFromActorImg (A @ lit ''/portraits/'' @ Name @ DOT # e)
               = Inr (Some \<lparr> wildcardSrc = A @ lit ''/tokens/'' @ enc @ lit ''*'' @ DOT # e,
                              circleSrc = A @ lit ''/circle/'' @ Name @ DOT # e,
                              ext = DOT # e \<rparr>)"
proof -
  from assms(5-7) have "match_ext (DOT # e)"
    by (auto simp: match_ext_def list_all_iff)
  with assms(1-3) have m: "portrait_regex_exec (A @ lit ''/portraits/'' @ Name @ DOT # e)
      = Some (A, Name, DOT # e)"
    by (rule portrait_regex_exec_form)
  from assms(4) obtain enc where "encodeURIComponent Name = Inr enc"
    using encodeURIComponent_total [of Name] by auto
  with m show ?thesis
    by (simp add: buildPathsFromActorImg_def lit_def)
qed

theorem deriver_on_portrait_path_witness:
  "buildPathsFromActorImg (lit ''assets/portraits/Cult Adept.webp'')
     = Inr (Some \<lparr> wildcardSrc = lit ''assets/tokens/Cult%20Adept*.webp'',
                    circleSrc = lit ''assets/circle/Cult Adept.webp'',
                    ext = lit ''.webp'' \<rparr>)"
proof -
  have a: "\<forall>c\<in>set (lit ''assets''). \<not> line_terminator c"
    by (simp add: lit_def line_terminator_def)
  have n: "lit ''Cult Adept'' \<noteq> []" "SLASH \<notin> set (lit ''Cult Adept'')"
    "paired_surrogates (lit ''Cult Adept'')"
    by (simp_all add: lit_def SLASH_def low_surrogate_def high_surrogate_def)
  have e: "lit ''webp'' \<noteq> []" "DOT \<notin> set (lit ''webp'')" "SLASH \<notin> set (lit ''webp'')"
    by (simp_all add: lit_def SLASH_def DOT_def)
  have enc: "encodeURIComponent (lit ''Cult Adept'') = Inr (lit ''Cult%20Adept'')"
    by code_simp
  from deriver_on_portrait_path [OF a n e] obtain enc' where
    1: "encodeURIComponent (lit ''Cult Adept'') = Inr enc'" and
    2: "buildPathsFromActorImg
          (lit ''assets'' @ lit ''/portraits/'' @ lit ''Cult Adept'' @ DOT # lit ''webp'')
        = Inr (Some \<lparr> wildcardSrc = lit ''assets'' @ lit ''/tokens/'' @ enc' @ lit ''*''
                                     @ DOT # lit ''webp'',
                       circleSrc = lit ''assets'' @ lit ''/circle/'' @ lit ''Cult Adept''
                                     @ DOT # lit ''webp'',
                       ext = DOT # lit ''webp'' \<rparr>)"
    by blast
  from 1 enc have "enc' = lit ''Cult%20Adept''" by simp
  with 2 show ?thesis
    by (simp add: lit_def DOT_def)
qed

text \<open>
  Claim C2. For every path that the expression does not match, the deriver returns the
  empty result; and when the handler, past its gate, is given such a path as the portrait
  (a string that is not empty, or it is no portrait for the handler) in a mode other than
  \<open>portraitRings\<close>, it sets the token texture source to the portrait path itself and
  \<open>randomImg\<close> to false. These writes come before the ring step, so they are made whatever
  the ring of the document is; with a complete ring the handler also returns.
\<close>

theorem unmatched_path_fallback:
  assumes "portrait_regex_exec p = None"
  shows "buildPathsFromActorImg p = Inr None
         \<and> (MAPPING_DATA_LOADED st \<and> has (SUPPORTED_PACKS st) (pack_id pack) \<and> p \<noteq> []
              \<and> tokenMode cfg \<noteq> TOKEN_MODE_PORTRAIT_RINGS
            \<longrightarrow> (\<exists>d err. applyCompendiumArt h st cfg source pack (Some \<lparr> actor = Str p \<rparr>) = (d, err)
                   \<and> at_texture src d = Str p
                   \<and> at_token randomImg d = Bool False
                   \<and> (ring_complete source \<longrightarrow> err = None)))"
proof (intro conjI impI)
  show b: "buildPathsFromActorImg p = Inr None"
    using assms by (simp add: buildPathsFromActorImg_def)
  assume g: "MAPPING_DATA_LOADED st \<and> has (SUPPORTED_PACKS st) (pack_id pack) \<and> p \<noteq> []
              \<and> tokenMode cfg \<noteq> TOKEN_MODE_PORTRAIT_RINGS"
  define pt where "pt = (case prototypeToken source of None \<Rightarrow> empty_prototypeToken | Some q \<Rightarrow> q)"
  define rg where "rg = (case ring pt of None \<Rightarrow> default_ring | Some r \<Rightarrow> r)"
  obtain rg' err where r: "apply_ring (tokenMode cfg) (normalized_ring_color h (ringColor cfg)) rg = (rg', err)"
    by (cases "apply_ring (tokenMode cfg) (normalized_ring_color h (ringColor cfg)) rg")
  have e: "err = None" if "ring_complete source"
  proof -
    from working_ring_complete [OF that pt_def rg_def] obtain c sb where
      "colors rg = Some c" "subject rg = Some sb" by blast
    from apply_ring_complete [OF this, of cfg h] r show ?thesis by auto
  qed
  from g have "portrait_of (Some \<lparr> actor = Str p \<rparr>) = Some p"
    by (simp add: portrait_of_Str)
  with g b r e show "\<exists>d err. applyCompendiumArt h st cfg source pack (Some \<lparr> actor = Str p \<rparr>) = (d, err)
                   \<and> at_texture src d = Str p
                   \<and> at_token randomImg d = Bool False
                   \<and> (ring_complete source \<longrightarrow> err = None)"
    by (simp add: handler_gated apply_portrait_def Let_def truthy_def attach_def
        at_token_def at_texture_def pt_def [symmetric] rg_def [symmetric])
qed

text \<open>A path with no \<^verbatim>\<open>/portraits/\<close> segment, in the mode \<open>wildcardsRings\<close>.\<close>

theorem unmatched_path_fallback_witness:
  "buildPathsFromActorImg (lit ''systems/daggerheart/art/Cult Adept.webp'') = Inr None
   \<and> (\<exists>d. applyCompendiumArt example_host example_state (example_settings TOKEN_MODE_WILDCARDS_RINGS)
          example_source example_pack
          (Some \<lparr> actor = Str (lit ''systems/daggerheart/art/Cult Adept.webp'') \<rparr>) = (d, None)
        \<and> at_texture src d = Str (lit ''systems/daggerheart/art/Cult Adept.webp'')
        \<and> at_token randomImg d = Bool False)"
proof -
  have n: "portrait_regex_exec (lit ''systems/daggerheart/art/Cult Adept.webp'') = None"
    by code_simp
  have ne: "lit ''systems/daggerheart/art/Cult Adept.webp'' \<noteq> []"
    by (simp add: lit_def)
  have md: "tokenMode (example_settings TOKEN_MODE_WILDCARDS_RINGS) \<noteq> TOKEN_MODE_PORTRAIT_RINGS"
    by (simp add: example_settings_def mode_distinct)
  have rc: "ring_complete example_source"
    by (simp add: ring_complete_def example_source_def)
  from unmatched_path_fallback [OF n, of example_state example_pack
      "example_settings TOKEN_MODE_WILDCARDS_RINGS" example_host example_source]
    example_gate ne md rc
  show ?thesis by blast
qed

subsection \<open>The modes\<close>

text \<open>
  Claim C3, as stated: for every supported pack and every portrait path that matches the
  convention, in the mode \<open>wildcardsRings\<close> the handler leaves the document with
  \<open>randomImg = true\<close>, \<open>ring.enabled = true\<close> and \<open>ring.subject.scale = 0.8\<close>. It fails on a
  matching path whose base name has an unpaired low surrogate: \<open>encodeURIComponent\<close>
  throws a URIError inside the deriver, the handler does not catch it, and neither
  \<open>randomImg\<close> nor the ring is written.
\<close>

theorem wildcardsRings_unpaired_surrogate_counterexample:
  "portrait_regex_exec unpaired_low = Some (lit ''a'', lit ''x'' @ [0xDC00], lit ''.webp'')
   \<and> snd (applyCompendiumArt example_host example_state (example_settings TOKEN_MODE_WILDCARDS_RINGS)
          example_source example_pack (Some \<lparr> actor = Str unpaired_low \<rparr>)) = Some URIError
   \<and> at_token randomImg (fst (applyCompendiumArt example_host example_state
          (example_settings TOKEN_MODE_WILDCARDS_RINGS) example_source example_pack
          (Some \<lparr> actor = Str unpaired_low \<rparr>))) = Undefined
   \<and> at_ring enabled (fst (applyCompendiumArt example_host example_state
          (example_settings TOKEN_MODE_WILDCARDS_RINGS) example_source example_pack
          (Some \<lparr> actor = Str unpaired_low \<rparr>))) = Undefined"
proof -
  have m: "portrait_regex_exec unpaired_low = Some (lit ''a'', lit ''x'' @ [0xDC00], lit ''.webp'')"
    by code_simp
  have b: "buildPathsFromActorImg unpaired_low = Inl URIError"
    by code_simp
  show ?thesis
    unfolding m
    by (simp add: handler_gated [OF example_gate] matched_portrait_of [OF m] b Let_def
        at_ring_def at_colors_def at_subject_def at_token_def attach_def example_source_def
        empty_prototypeToken_def default_ring_def)
qed

text \<open>The ring of the document matters too. With a ring that has no \<open>subject\<close> object the
  portrait and \<open>ring.enabled\<close> are written, and the assignment to \<open>ring.subject.scale\<close>
  throws.\<close>

lemma wildcardsRings_partial_ring:
  "snd (applyCompendiumArt example_host example_state (example_settings TOKEN_MODE_WILDCARDS_RINGS)
          no_subject_source example_pack (Some \<lparr> actor = Str example_portrait \<rparr>)) = Some TypeError
   \<and> at_subject subject_scale (fst (applyCompendiumArt example_host example_state
          (example_settings TOKEN_MODE_WILDCARDS_RINGS) no_subject_source example_pack
          (Some \<lparr> actor = Str example_portrait \<rparr>))) = Undefined"
  by code_simp

text \<open>
  Claim C3, amended: for every supported pack, every portrait path that matches the
  convention and whose base name has no unpaired surrogate, and every document whose
  prototype-token ring is absent or has its \<open>colors\<close> and \<open>subject\<close> objects, in the mode
  \<open>wildcardsRings\<close> the handler returns and leaves the document with \<open>randomImg = true\<close>,
  \<open>ring.enabled = true\<close>, \<open>ring.subject.scale = 0.8\<close> and the token texture source set to
  the derived wildcard path of the tokens directory.
\<close>

theorem wildcardsRings_applied:
  assumes "MAPPING_DATA_LOADED st" "has (SUPPORTED_PACKS st) (pack_id pack)"
    and "portrait_regex_exec p = Some (A, N, E)"
    and "paired_surrogates N"
    and "ring_complete source"
    and "tokenMode cfg = TOKEN_MODE_WILDCARDS_RINGS"
  shows "\<exists>d enc. applyCompendiumArt h st cfg source pack (Some \<lparr> actor = Str p \<rparr>) = (d, None)
           \<and> encodeURIComponent N = Inr enc
           \<and> at_token randomImg d = Bool True
           \<and> at_ring enabled d = Bool True
           \<and> at_subject subject_scale d = Num (8 / 10)
           \<and> at_texture src d = Str (A @ lit ''/tokens/'' @ enc @ lit ''*'' @ E)"
proof -
  from assms(4) obtain enc where enc: "encodeURIComponent N = Inr enc"
    using encodeURIComponent_total [of N] by auto
  from working_ring_complete [OF assms(5) refl refl] obtain c sb where
    cs: "colors (case ring (case prototypeToken source of None \<Rightarrow> empty_prototypeToken | Some q \<Rightarrow> q) of
                  None \<Rightarrow> default_ring | Some r \<Rightarrow> r) = Some c"
        "subject (case ring (case prototypeToken source of None \<Rightarrow> empty_prototypeToken | Some q \<Rightarrow> q) of
                   None \<Rightarrow> default_ring | Some r \<Rightarrow> r) = Some sb"
    by blast
  from enc assms(3,6) show ?thesis
    by (simp add: handler_gated [OF assms(1,2)] matched_portrait_of [OF assms(3)]
        buildPathsFromActorImg_def apply_portrait_def Let_def mode_distinct isWildcardMode_def
        truthy_def attach_def at_token_def at_ring_def at_subject_def at_texture_def
        apply_ring_def cs hasRings_def lit_def)
qed

theorem wildcardsRings_applied_witness:
  "\<exists>d. applyCompendiumArt example_host example_state (example_settings TOKEN_MODE_WILDCARDS_RINGS)
          example_source example_pack (Some \<lparr> actor = Str example_portrait \<rparr>) = (d, None)
       \<and> at_token randomImg d = Bool True
       \<and> at_ring enabled d = Bool True
       \<and> at_subject subject_scale d = Num (8 / 10)
       \<and> at_texture src d = Str (lit ''assets/tokens/Cult%20Adept*.webp'')"
proof -
  have s: "paired_surrogates (lit ''Cult Adept'')"
    by code_simp
  have md: "tokenMode (example_settings TOKEN_MODE_WILDCARDS_RINGS) = TOKEN_MODE_WILDCARDS_RINGS"
    by (simp add: example_settings_def)
  have j: "lit ''assets'' @ lit ''/tokens/'' @ lit ''Cult%20Adept'' @ lit ''*'' @ lit ''.webp''
      = lit ''assets/tokens/Cult%20Adept*.webp''"
    by (simp add: lit_def)
  have rc: "ring_complete example_source"
    by (simp add: ring_complete_def example_source_def)
  from wildcardsRings_applied [OF example_gate example_portrait_match s rc md, of example_host]
  show ?thesis
    by (auto simp: example_name_encoded j)
qed

text \<open>
  Claim C4, as stated: for every supported pack and every portrait path that matches the
  convention, in the mode \<open>circle\<close> the handler leaves the document with
  \<open>randomImg = false\<close>, \<open>ring.enabled = false\<close>, \<open>ring.colors.ring = null\<close> and
  \<open>ring.subject.scale = 1.0\<close>. The deriver is called in every mode, before the mode is
  looked at, and encodes the base name although the circle path does not use the result:
  on a matching path whose base name has its two surrogates in the wrong order the
  handler throws and writes none of these.
\<close>

theorem circle_unpaired_surrogate_counterexample:
  "portrait_regex_exec unpaired_pair = Some (lit ''a'', [0xDE00, 0xD83D], lit ''.webp'')
   \<and> snd (applyCompendiumArt example_host example_state (example_settings TOKEN_MODE_CIRCLE)
          example_source example_pack (Some \<lparr> actor = Str unpaired_pair \<rparr>)) = Some URIError
   \<and> at_token randomImg (fst (applyCompendiumArt example_host example_state
          (example_settings TOKEN_MODE_CIRCLE) example_source example_pack
          (Some \<lparr> actor = Str unpaired_pair \<rparr>))) = Undefined
   \<and> at_ring enabled (fst (applyCompendiumArt example_host example_state
          (example_settings TOKEN_MODE_CIRCLE) example_source example_pack
          (Some \<lparr> actor = Str unpaired_pair \<rparr>))) = Undefined
   \<and> at_subject subject_scale (fst (applyCompendiumArt example_host example_state
          (example_settings TOKEN_MODE_CIRCLE) example_source example_pack
          (Some \<lparr> actor = Str unpaired_pair \<rparr>))) = Undefined"
proof -
  have m: "portrait_regex_exec unpaired_pair = Some (lit ''a'', [0xDE00, 0xD83D], lit ''.webp'')"
    by code_simp
  have b: "buildPathsFromActorImg unpaired_pair = Inl URIError"
    by code_simp
  show ?thesis
    unfolding m
    by (simp add: handler_gated [OF example_gate] matched_portrait_of [OF m] b Let_def
        at_ring_def at_colors_def at_subject_def at_token_def attach_def example_source_def
        empty_prototypeToken_def default_ring_def)
qed

text \<open>The ring of the document matters too. With the ring \<^verbatim>\<open>{}\<close> the assignment to
  \<open>ring.colors.ring\<close> throws, and neither it nor \<open>ring.subject.scale\<close> is written.\<close>

lemma circle_partial_ring:
  "snd (applyCompendiumArt example_host example_state (example_settings TOKEN_MODE_CIRCLE)
          empty_ring_source example_pack (Some \<lparr> actor = Str example_portrait \<rparr>)) = Some TypeError
   \<and> at_colors colors_ring (fst (applyCompendiumArt example_host example_state
          (example_settings TOKEN_MODE_CIRCLE) empty_ring_source example_pack
          (Some \<lparr> actor = Str example_portrait \<rparr>))) = Undefined
   \<and> at_subject subject_scale (fst (applyCompendiumArt example_host example_state
          (example_settings TOKEN_MODE_CIRCLE) empty_ring_source example_pack
          (Some \<lparr> actor = Str example_portrait \<rparr>))) = Undefined"
  by code_simp

text \<open>
  Claim C4, amended: for every supported pack, every portrait path that matches the
  convention and whose base name has no unpaired surrogate, and every document whose
  prototype-token ring is absent or has its \<open>colors\<close> and \<open>subject\<close> objects, in the mode
  \<open>circle\<close> the handler returns and leaves the document with \<open>randomImg = false\<close>,
  \<open>ring.enabled = false\<close>, \<open>ring.colors.ring = null\<close>, \<open>ring.subject.scale = 1.0\<close> and the
  token texture source set to the derived exact path of the circle directory.
\<close>

theorem circle_applied:
  assumes "MAPPING_DATA_LOADED st" "has (SUPPORTED_PACKS st) (pack_id pack)"
    and "portrait_regex_exec p = Some (A, N, E)"
    and "paired_surrogates N"
    and "ring_complete source"
    and "tokenMode cfg = TOKEN_MODE_CIRCLE"
  shows "\<exists>d. applyCompendiumArt h st cfg source pack (Some \<lparr> actor = Str p \<rparr>) = (d, None)
           \<and> at_token randomImg d = Bool False
           \<and> at_ring enabled d = Bool False
           \<and> at_colors colors_ring d = Null
           \<and> at_subject subject_scale d = Num 1
           \<and> at_texture src d = Str (A @ lit ''/circle/'' @ N @ E)"
proof -
  from assms(4) obtain enc where enc: "encodeURIComponent N = Inr enc"
    using encodeURIComponent_total [of N] by auto
  from working_ring_complete [OF assms(5) refl refl] obtain c sb where
    cs: "colors (case ring (case prototypeToken source of None \<Rightarrow> empty_prototypeToken | Some q \<Rightarrow> q) of
                  None \<Rightarrow> default_ring | Some r \<Rightarrow> r) = Some c"
        "subject (case ring (case prototypeToken source of None \<Rightarrow> empty_prototypeToken | Some q \<Rightarrow> q) of
                   None \<Rightarrow> default_ring | Some r \<Rightarrow> r) = Some sb"
    by blast
  from enc assms(3,6) show ?thesis
    by (simp add: handler_gated [OF assms(1,2)] matched_portrait_of [OF assms(3)]
        buildPathsFromActorImg_def apply_portrait_def Let_def mode_distinct
        mode_distinct [symmetric] isWildcardMode_def
        truthy_def attach_def at_token_def at_ring_def at_colors_def at_subject_def
        at_texture_def apply_ring_def cs hasRings_def lit_def)
qed

theorem circle_applied_witness:
  "\<exists>d. applyCompendiumArt example_host example_state (example_settings TOKEN_MODE_CIRCLE)
          example_source example_pack (Some \<lparr> actor = Str example_portrait \<rparr>) = (d, None)
       \<and> at_token randomImg d = Bool False
       \<and> at_ring enabled d = Bool False
       \<and> at_colors colors_ring d = Null
       \<and> at_subject subject_scale d = Num 1
       \<and> at_texture src d = Str (lit ''assets/circle/Cult Adept.webp'')"
proof -
  have s: "paired_surrogates (lit ''Cult Adept'')"
    by code_simp
  have md: "tokenMode (example_settings TOKEN_MODE_CIRCLE) = TOKEN_MODE_CIRCLE"
    by (simp add: example_settings_def)
  have j: "lit ''assets'' @ lit ''/circle/'' @ lit ''Cult Adept'' @ lit ''.webp''
      = lit ''assets/circle/Cult Adept.webp''"
    by (simp add: lit_def)
  have rc: "ring_complete example_source"
    by (simp add: ring_complete_def example_source_def)
  from circle_applied [OF example_gate example_portrait_match s rc md, of example_host]
  show ?thesis
    by (simp add: j)
qed

subsection \<open>The gate\<close>

text \<open>
  Claim C5. When the pack identifier is not a member of the preloaded supported-pack set,
  or when preloading has not completed (the loaded flag is false), the handler performs
  no mutation: the document is left exactly as it was passed in, and nothing is thrown.
\<close>

theorem gate_closed_no_mutation:
  assumes "\<not> MAPPING_DATA_LOADED st \<or> \<not> has (SUPPORTED_PACKS st) (pack_id pack)"
  shows "applyCompendiumArt h st cfg source pack art = (source, None)"
  using assms by (auto simp: applyCompendiumArt_def isPackSupported_def)

text \<open>An unsupported pack with a loaded cache, and a supported pack with a cache that is
  not loaded.\<close>

theorem gate_closed_no_mutation_witness:
  "\<not> has (SUPPORTED_PACKS example_state) (pack_id (Some \<lparr> metadata = None, collection = Str (lit ''packZ'') \<rparr>))
   \<and> applyCompendiumArt example_host example_state (example_settings TOKEN_MODE_CIRCLE) example_source
         (Some \<lparr> metadata = None, collection = Str (lit ''packZ'') \<rparr>)
         (Some \<lparr> actor = Str example_portrait \<rparr>)
       = (example_source, None)
   \<and> \<not> MAPPING_DATA_LOADED (example_state\<lparr> MAPPING_DATA_LOADED := False \<rparr>)
   \<and> applyCompendiumArt example_host (example_state\<lparr> MAPPING_DATA_LOADED := False \<rparr>)
         (example_settings TOKEN_MODE_CIRCLE) example_source example_pack
         (Some \<lparr> actor = Str example_portrait \<rparr>)
       = (example_source, None)"
proof -
  have a: "\<not> has (SUPPORTED_PACKS example_state)
              (pack_id (Some \<lparr> metadata = None, collection = Str (lit ''packZ'') \<rparr>))"
    by (simp add: has_def example_state_def pack_id_def nullish_def lit_def)
  have b: "\<not> MAPPING_DATA_LOADED (example_state\<lparr> MAPPING_DATA_LOADED := False \<rparr>)"
    by simp
  from a b
    gate_closed_no_mutation [of example_state "Some \<lparr> metadata = None, collection = Str (lit ''packZ'') \<rparr>"
      example_host "example_settings TOKEN_MODE_CIRCLE" example_source
      "Some \<lparr> actor = Str example_portrait \<rparr>"]
    gate_closed_no_mutation [of "example_state\<lparr> MAPPING_DATA_LOADED := False \<rparr>" example_pack
      example_host "example_settings TOKEN_MODE_CIRCLE" example_source
      "Some \<lparr> actor = Str example_portrait \<rparr>"]
  show ?thesis by simp
qed

subsection \<open>The preloader\<close>

text \<open>
  Claim C6. Preloading never throws, sets the loaded flag, and leaves as the
  supported-pack set the union of the top-level keys of the mapping files that were
  fetched and parsed, whatever the set held before. In particular, with two entries, in
  either order, of which one fails to be fetched (the network fails, the status is not
  ok, a 404 say, or the body is not JSON) and the other yields a JSON object whose keys
  are \<open>packA\<close> and \<open>packB\<close>, the set is exactly \<open>{packA, packB}\<close>.
\<close>

theorem preload_isolates_failures:
  "preloadMappingData modul net st
     = Inr \<lparr> SUPPORTED_PACKS = union_of_fetched_keys net (mappings_of modul),
             MAPPING_DATA_LOADED = True \<rparr>
   \<and> (mappings_of modul = [(k1, Some \<lparr> mapping = Str bad \<rparr>), (k2, Some \<lparr> mapping = Str good \<rparr>)]
        \<or> mappings_of modul = [(k2, Some \<lparr> mapping = Str good \<rparr>), (k1, Some \<lparr> mapping = Str bad \<rparr>)]
      \<longrightarrow> good \<noteq> [] \<longrightarrow> fetch_fails net bad \<longrightarrow> fetch_yields net good kvs
      \<longrightarrow> set (map fst kvs) = {packA, packB}
      \<longrightarrow> preloadMappingData modul net st
            = Inr \<lparr> SUPPORTED_PACKS = {packA, packB}, MAPPING_DATA_LOADED = True \<rparr>)"
proof -
  have gen: "preloadMappingData modul net st
     = Inr \<lparr> SUPPORTED_PACKS = union_of_fetched_keys net (mappings_of modul),
             MAPPING_DATA_LOADED = True \<rparr>"
    by (simp add: preloadMappingData_def preload_entries_eq)
  show ?thesis
  proof (intro conjI impI)
    show "preloadMappingData modul net st
     = Inr \<lparr> SUPPORTED_PACKS = union_of_fetched_keys net (mappings_of modul),
             MAPPING_DATA_LOADED = True \<rparr>"
      by (rule gen)
  next
    assume "mappings_of modul = [(k1, Some \<lparr> mapping = Str bad \<rparr>), (k2, Some \<lparr> mapping = Str good \<rparr>)]
        \<or> mappings_of modul = [(k2, Some \<lparr> mapping = Str good \<rparr>), (k1, Some \<lparr> mapping = Str bad \<rparr>)]"
      and "good \<noteq> []" "fetch_fails net bad" "fetch_yields net good kvs"
      and "set (map fst kvs) = {packA, packB}"
    then have "union_of_fetched_keys net (mappings_of modul) = {packA, packB}"
      by (auto simp: union_of_fetched_keys_def fetched_keys_fails fetched_keys_yields)
    with gen show "preloadMappingData modul net st
            = Inr \<lparr> SUPPORTED_PACKS = {packA, packB}, MAPPING_DATA_LOADED = True \<rparr>"
      by simp
  qed
qed

text \<open>A 404 for the first entry, the object \<^verbatim>\<open>{"packA":1,"packB":2}\<close> for the second,
  and a stale set to start with.\<close>

theorem preload_isolates_failures_witness:
  "preloadMappingData example_module example_network
     \<lparr> SUPPORTED_PACKS = {lit ''stale''}, MAPPING_DATA_LOADED = False \<rparr>
   = Inr \<lparr> SUPPORTED_PACKS = {lit ''packA'', lit ''packB''}, MAPPING_DATA_LOADED = True \<rparr>"
proof -
  have m: "mappings_of example_module
      = [(lit ''dnd5e'', Some \<lparr> mapping = Str (lit ''missing.json'') \<rparr>),
         (lit ''daggerheart'', Some \<lparr> mapping = Str (lit ''mapping.json'') \<rparr>)]"
    by (simp add: mappings_of_def example_module_def)
  have g: "lit ''mapping.json'' \<noteq> []"
    by (simp add: lit_def)
  have f: "fetch_fails example_network (lit ''missing.json'')"
    by (simp add: fetch_fails_def example_network_def ok_def)
  have y: "fetch_yields example_network (lit ''mapping.json'')
      [(lit ''packA'', JNum 1), (lit ''packB'', JNum 2)]"
    by (simp add: fetch_yields_def example_network_def ok_def lit_def)
  have k: "set (map fst [(lit ''packA'', JNum 1), (lit ''packB'', JNum 2)]) = {lit ''packA'', lit ''packB''}"
    by simp
  from preload_isolates_failures [of example_module example_network
      "\<lparr> SUPPORTED_PACKS = {lit ''stale''}, MAPPING_DATA_LOADED = False \<rparr>"
      "lit ''dnd5e''" "lit ''missing.json''" "lit ''daggerheart''" "lit ''mapping.json''"
      "[(lit ''packA'', JNum 1), (lit ''packB'', JNum 2)]" "lit ''packA''" "lit ''packB''"]
    m g f y k
  show ?thesis by blast
qed

subsection \<open>The ring\<close>

text \<open>
  Claim C7, as stated: every invocation that passes the gate sets all six ring fields,
  whether or not a portrait is present. It fails when the portrait matches the convention
  with an unpaired surrogate in its base name: the deriver is called in every mode, here
  \<open>portraitRings\<close>, which does not use the derived paths; it throws before step 2, and the
  ring is left as it was.
\<close>

theorem ring_fields_unwritten_counterexample:
  "portrait_regex_exec unpaired_high = Some (lit ''a'', [0xD83D], lit ''.png'')
   \<and> snd (applyCompendiumArt example_host example_state (example_settings TOKEN_MODE_PORTRAIT_RINGS)
          example_source example_pack (Some \<lparr> actor = Str unpaired_high \<rparr>)) = Some URIError
   \<and> ring_fields (fst (applyCompendiumArt example_host example_state
          (example_settings TOKEN_MODE_PORTRAIT_RINGS) example_source example_pack
          (Some \<lparr> actor = Str unpaired_high \<rparr>)))
       = (Undefined, Undefined, Undefined, Undefined, Undefined, Undefined)"
proof -
  have m: "portrait_regex_exec unpaired_high = Some (lit ''a'', [0xD83D], lit ''.png'')"
    by code_simp
  have b: "buildPathsFromActorImg unpaired_high = Inl URIError"
    by code_simp
  show ?thesis
    unfolding m
    by (simp add: handler_gated [OF example_gate] matched_portrait_of [OF m] b Let_def
        ring_fields_def at_colors_def at_subject_def at_ring_def at_token_def attach_def
        example_source_def empty_prototypeToken_def default_ring_def)
qed

text \<open>The ring of the document matters too. With a ring that has no \<open>subject\<close> object, and
  no portrait, four of the six fields are written before the assignment to
  \<open>ring.subject.scale\<close> throws.\<close>

lemma ring_fields_partial_ring:
  "snd (applyCompendiumArt example_host example_state (example_settings TOKEN_MODE_PORTRAIT_RINGS)
          no_subject_source example_pack None) = Some TypeError
   \<and> ring_fields (fst (applyCompendiumArt example_host example_state
          (example_settings TOKEN_MODE_PORTRAIT_RINGS) no_subject_source example_pack None))
       = (Bool True, Num 1, Str (lit ''#8f0000''), Null, Undefined, Undefined)"
  by code_simp

text \<open>
  Claim C7, amended: every invocation that passes the gate, in which the path deriver
  does not throw (there is no portrait, or the portrait does not match the convention, or
  its base name has no unpaired surrogate) and in which the document's prototype-token
  ring is absent or has its \<open>colors\<close> and \<open>subject\<close> objects, returns and sets all six ring
  fields, whether or not a portrait is present: \<open>ring.enabled\<close> to whether the mode is a
  rings mode, \<open>ring.effects = 1\<close>, \<open>ring.colors.ring\<close> to the configured colour when rings
  are enabled and null otherwise, \<open>ring.colors.background = null\<close>, \<open>ring.subject.scale\<close> to
  0.8 when rings are enabled and 1.0 otherwise, \<open>ring.subject.texture = null\<close>.
\<close>

theorem ring_fields_written:
  assumes "MAPPING_DATA_LOADED st" "has (SUPPORTED_PACKS st) (pack_id pack)"
    and "\<not> deriver_throws art"
    and "ring_complete source"
  shows "\<exists>d. applyCompendiumArt h st cfg source pack art = (d, None)
           \<and> ring_fields d = written_ring_fields h cfg"
proof -
  define pt where "pt = (case prototypeToken source of None \<Rightarrow> empty_prototypeToken | Some q \<Rightarrow> q)"
  define tx where "tx = (case texture pt of None \<Rightarrow> empty_texture | Some t \<Rightarrow> t)"
  define rg where "rg = (case ring pt of None \<Rightarrow> default_ring | Some r \<Rightarrow> r)"
  from working_ring_complete [OF assms(4) pt_def rg_def] obtain c sb where
    cs: "colors rg = Some c" "subject rg = Some sb" by blast
  show ?thesis
  proof (cases "portrait_of art")
    case None
    from apply_ring_complete [OF cs, of cfg h source "img source" pt tx] obtain rg' where
      "apply_ring (tokenMode cfg) (normalized_ring_color h (ringColor cfg)) rg = (rg', None)"
      "ring_fields (attach source (img source) pt tx rg') = written_ring_fields h cfg"
      by blast
    with None show ?thesis
      by (simp add: handler_gated [OF assms(1,2)] Let_def pt_def [symmetric] tx_def [symmetric]
          rg_def [symmetric])
  next
    case (Some actorImg)
    with assms(3) obtain derived where d: "buildPathsFromActorImg actorImg = Inr derived"
      by (cases "buildPathsFromActorImg actorImg") (simp_all add: deriver_throws_def)
    obtain pt' tx' where ap: "apply_portrait cfg actorImg derived (pt, tx) = (pt', tx')"
      by (cases "apply_portrait cfg actorImg derived (pt, tx)")
    from apply_ring_complete [OF cs, of cfg h source "Str actorImg" pt' tx'] obtain rg' where
      "apply_ring (tokenMode cfg) (normalized_ring_color h (ringColor cfg)) rg = (rg', None)"
      "ring_fields (attach source (Str actorImg) pt' tx' rg') = written_ring_fields h cfg"
      by blast
    with Some d ap show ?thesis
      by (simp add: handler_gated [OF assms(1,2)] Let_def pt_def [symmetric] tx_def [symmetric]
          rg_def [symmetric])
  qed
qed

text \<open>With a portrait in a mode without rings, and without a portrait in a rings mode.\<close>

theorem ring_fields_written_witness:
  "(\<exists>d. applyCompendiumArt example_host example_state (example_settings TOKEN_MODE_WILDCARDS)
          example_source example_pack (Some \<lparr> actor = Str example_portrait \<rparr>)
        = (d, None)
       \<and> ring_fields d = (Bool False, Num 1, Null, Null, Num 1, Null))
   \<and> (\<exists>d. applyCompendiumArt example_host example_state (example_settings TOKEN_MODE_PORTRAIT_RINGS)
          example_source example_pack None = (d, None)
       \<and> ring_fields d = (Bool True, Num 1, Str (lit ''#8f0000''), Null, Num (8 / 10), Null))"
proof -
  have t1: "\<not> deriver_throws (Some \<lparr> actor = Str example_portrait \<rparr>)"
    by code_simp
  have t2: "\<not> deriver_throws None"
    by code_simp
  have w1: "written_ring_fields example_host (example_settings TOKEN_MODE_WILDCARDS)
      = (Bool False, Num 1, Null, Null, Num 1, Null)"
    by (simp add: written_ring_fields_def example_settings_def hasRings_def mode_distinct)
  have w2: "written_ring_fields example_host (example_settings TOKEN_MODE_PORTRAIT_RINGS)
      = (Bool True, Num 1, Str (lit ''#8f0000''), Null, Num (8 / 10), Null)"
    by (simp add: written_ring_fields_def example_settings_def hasRings_def
        normalized_ring_color_def example_host_def nullish_def)
  have rc: "ring_complete example_source"
    by (simp add: ring_complete_def example_source_def)
  from ring_fields_written [OF example_gate t1 rc, of example_host "example_settings TOKEN_MODE_WILDCARDS"]
    ring_fields_written [OF example_gate t2 rc, of example_host "example_settings TOKEN_MODE_PORTRAIT_RINGS"]
  show ?thesis
    unfolding w1 w2 by simp
qed

subsection \<open>The settings\<close>

text \<open>
  Claim C8, as stated: every registered option is world-scoped, and every one except the
  debug-logging flag is registered with \<open>requiresReload\<close> set. It fails at the first
  registration: \<open>tokenAutoRotate\<close> is not the debug-logging flag and is registered without
  \<open>requiresReload\<close>.
\<close>

theorem tokenAutoRotate_reload_counterexample:
  "fst (registerSettings [] ! 0) = (MODULE_ID, lit ''tokenAutoRotate'')
   \<and> lit ''tokenAutoRotate'' \<noteq> lit ''debugLogging''
   \<and> requiresReload (snd (registerSettings [] ! 0)) = None"
  by (simp add: registerSettings_def register_def Let_def lit_def)

text \<open>
  Claim C8, amended: every settings option registered by the module is world-scoped;
  \<open>ringColor\<close>, \<open>tokenMode\<close>, \<open>tokenWidth\<close>, \<open>tokenHeight\<close> and \<open>imageFitMode\<close> are registered
  with \<open>requiresReload\<close> set, \<open>tokenAutoRotate\<close> and \<open>debugLogging\<close> without it.
\<close>

theorem registered_scope_and_reload:
  "map (\<lambda>(k, s). (k, scope s, requiresReload s)) (registerSettings [])
     = [((MODULE_ID, lit ''tokenAutoRotate''), lit ''world'', None),
        ((MODULE_ID, lit ''debugLogging''), lit ''world'', None),
        ((MODULE_ID, lit ''ringColor''), lit ''world'', Some True),
        ((MODULE_ID, lit ''tokenMode''), lit ''world'', Some True),
        ((MODULE_ID, lit ''tokenWidth''), lit ''world'', Some True),
        ((MODULE_ID, lit ''tokenHeight''), lit ''world'', Some True),
        ((MODULE_ID, lit ''imageFitMode''), lit ''world'', Some True)]"
  by (simp add: registerSettings_def register_def Let_def)

subsection \<open>The pack identifier\<close>

text \<open>
  Claim C9. For every pack object the identifier is \<open>pack.metadata.id\<close> when that value is
  not nullish, whatever \<open>pack.collection\<close> is, and \<open>pack.collection\<close> otherwise; and it is
  the identifier of the support check: an unsupported identifier makes the handler return
  without a write, and two packs with the same identifier are handled alike.
\<close>

theorem pack_identifier_precedence:
  "(metadata p = Some m \<and> \<not> nullish (metadata_id m) \<longrightarrow> pack_id (Some p) = metadata_id m)
   \<and> (metadata p = None \<or> (metadata p = Some m \<and> nullish (metadata_id m))
        \<longrightarrow> pack_id (Some p) = collection p)
   \<and> (\<not> isPackSupported st (pack_id (Some p))
        \<longrightarrow> applyCompendiumArt h st cfg source (Some p) art = (source, None))
   \<and> (pack_id (Some p) = pack_id (Some q)
        \<longrightarrow> applyCompendiumArt h st cfg source (Some p) art
            = applyCompendiumArt h st cfg source (Some q) art)"
  by (auto simp: pack_id_def nullish_def applyCompendiumArt_def isPackSupported_def Let_def)

text \<open>A pack with both values, a pack whose \<open>metadata.id\<close> is null, and a pack with a
  collection only.\<close>

theorem pack_identifier_precedence_witness:
  "pack_id (Some \<lparr> metadata = Some \<lparr> metadata_id = Str (lit ''packA'') \<rparr>,
                   collection = Str (lit ''packZ'') \<rparr>) = Str (lit ''packA'')
   \<and> pack_id (Some \<lparr> metadata = Some \<lparr> metadata_id = Null \<rparr>,
                     collection = Str (lit ''packZ'') \<rparr>) = Str (lit ''packZ'')
   \<and> applyCompendiumArt example_host example_state (example_settings TOKEN_MODE_CIRCLE) example_source
        (Some \<lparr> metadata = Some \<lparr> metadata_id = Null \<rparr>, collection = Str (lit ''packZ'') \<rparr>)
        None = (example_source, None)
   \<and> applyCompendiumArt example_host example_state (example_settings TOKEN_MODE_CIRCLE) example_source
        (Some \<lparr> metadata = Some \<lparr> metadata_id = Str (lit ''packA'') \<rparr>,
                collection = Str (lit ''packZ'') \<rparr>) None
       = applyCompendiumArt example_host example_state (example_settings TOKEN_MODE_CIRCLE) example_source
        (Some \<lparr> metadata = None, collection = Str (lit ''packA'') \<rparr>) None"
proof -
  let ?both = "\<lparr> metadata = Some \<lparr> metadata_id = Str (lit ''packA'') \<rparr>,
                 collection = Str (lit ''packZ'') \<rparr>"
  let ?null = "\<lparr> metadata = Some \<lparr> metadata_id = Null \<rparr>, collection = Str (lit ''packZ'') \<rparr>"
  let ?coll = "\<lparr> metadata = None, collection = Str (lit ''packA'') \<rparr>"
  have a: "\<not> nullish (Str (lit ''packA''))" "nullish Null"
    by (simp_all add: nullish_def)
  have b: "\<not> isPackSupported example_state (Str (lit ''packZ''))"
    by (simp add: isPackSupported_def has_def example_state_def lit_def)
  note both = pack_identifier_precedence
      [of ?both "\<lparr> metadata_id = Str (lit ''packA'') \<rparr>" example_state example_host
        "example_settings TOKEN_MODE_CIRCLE" example_source None ?coll]
  note null = pack_identifier_precedence
      [of ?null "\<lparr> metadata_id = Null \<rparr>" example_state example_host
        "example_settings TOKEN_MODE_CIRCLE" example_source None ?coll]
  note coll = pack_identifier_precedence
      [of ?coll "\<lparr> metadata_id = Null \<rparr>" example_state example_host
        "example_settings TOKEN_MODE_CIRCLE" example_source None ?coll]
  from a both have 1: "pack_id (Some ?both) = Str (lit ''packA'')" by simp
  from a null have 2: "pack_id (Some ?null) = Str (lit ''packZ'')" by simp
  from coll have 3: "pack_id (Some ?coll) = Str (lit ''packA'')" by simp
  from null 2 b have 4: "applyCompendiumArt example_host example_state
      (example_settings TOKEN_MODE_CIRCLE) example_source (Some ?null) None = (example_source, None)"
    by simp
  from both 1 3 have 5: "applyCompendiumArt example_host example_state
      (example_settings TOKEN_MODE_CIRCLE) example_source (Some ?both) None
      = applyCompendiumArt example_host example_state
      (example_settings TOKEN_MODE_CIRCLE) example_source (Some ?coll) None"
    by simp
  from 1 2 4 5 show ?thesis by simp
qed

subsection \<open>No portrait\<close>




end
